theory Spec2Isabelle
  imports Main "HOL-Library.Char_ord"
begin

chapter \<open>The workflow flattener of \<^verbatim>\<open>src/App.jsx\<close>\<close>

text \<open>
  The program reads workflow definitions (parsed JSON) and flattens each into a list of rows
  for a spreadsheet: one row per parameter of every task and of the creation form. This theory
  embeds the pure part of \<^verbatim>\<open>App.jsx\<close> (\<^verbatim>\<open>formatKey\<close>, \<^verbatim>\<open>processWorkflow\<close> with all of its
  inner functions, and the assembly step of \<^verbatim>\<open>handleFileUpload\<close>) and proves properties of it.

  Conventions of the embedding:
  \<^item> Text is a \<^typ>\<open>string\<close> holding the bytes of its UTF-8 encoding. The blank class
    (\<^verbatim>\<open>\s\<close>, \<^verbatim>\<open>trim\<close>) and the case mappings (\<^verbatim>\<open>toLowerCase\<close>, \<^verbatim>\<open>toUpperCase\<close>) are those of
    JavaScript on ASCII characters only: JavaScript's Unicode blanks and case tables are not
    modelled. So \<open>isSpace\<close>, \<open>trim\<close>, \<open>collapseSpaces\<close>, \<open>toLowerCase\<close>, \<open>toUpperCase\<close> and
    \<open>formatKey\<close> are the code's functions on text of ASCII characters (\<open>asciiText\<close>), and
    what is stated of their results is stated for such text. The classes \<^verbatim>\<open>[A-Z]\<close>, \<^verbatim>\<open>\w\<close> and
    \<^verbatim>\<open>[a-f0-9]\<close> are ASCII classes in JavaScript too.
  \<^item> A field that the code reads as text is a \<^typ>\<open>string option\<close>, \<^term>\<open>None\<close> standing for an
    absent field (\<^verbatim>\<open>undefined\<close>). A field that the code inspects with \<^verbatim>\<open>typeof\<close>, compares
    with \<^verbatim>\<open>undefined\<close>/\<^verbatim>\<open>null\<close>, or converts with \<^verbatim>\<open>String\<close>/\<^verbatim>\<open>Number\<close> is a primitive value
    \<open>jsval\<close>.
  \<^item> An array field that every use treats like the empty array when it is absent
    (\<^verbatim>\<open>xs?.forEach\<close>, \<^verbatim>\<open>xs || []\<close>, \<^verbatim>\<open>!xs || !xs.length\<close>) is a plain list.
  \<^item> The lookup tables, JavaScript objects used as dictionaries, are maps from the property
    key (a string) to the stored value. Keys inherited from \<^verbatim>\<open>Object.prototype\<close>
    (\<^verbatim>\<open>constructor\<close>, \<^verbatim>\<open>toString\<close>, ...) are not modelled: identifiers are assumed not to be
    such names.
  \<^item> Numbers are integers, printed in decimal; this is what JavaScript does for integers of
    magnitude below \<open>2^53\<close>.
\<close>

section \<open>Characters and strings\<close>


definition isUpperAZ :: "char \<Rightarrow> bool" where
  "isUpperAZ c = (CHR ''A'' \<le> c \<and> c \<le> CHR ''Z'')"

definition isLowerAZ :: "char \<Rightarrow> bool" where
  "isLowerAZ c = (CHR ''a'' \<le> c \<and> c \<le> CHR ''z'')"

definition isDigit :: "char \<Rightarrow> bool" where
  "isDigit c = (CHR ''0'' \<le> c \<and> c \<le> CHR ''9'')"

text \<open>\<^verbatim>\<open>\s\<close> and the characters \<^verbatim>\<open>trim\<close> strips, among the ASCII characters: tab, line feed,
  vertical tab, form feed, carriage return, space. (JavaScript also counts U+00A0, U+1680,
  U+2000 to U+200A, U+2028, U+2029, U+202F, U+205F, U+3000 and U+FEFF, which are not ASCII.)\<close>

definition isSpace :: "char \<Rightarrow> bool" where
  "isSpace c = (c \<in> set [CHR 0x09, CHR 0x0A, CHR 0x0B, CHR 0x0C, CHR 0x0D, CHR '' ''])"

text \<open>\<^verbatim>\<open>\w\<close> is \<^verbatim>\<open>[A-Za-z0-9_]\<close>.\<close>

definition isWordChar :: "char \<Rightarrow> bool" where
  "isWordChar c = (isUpperAZ c \<or> isLowerAZ c \<or> isDigit c \<or> c = CHR ''_'')"

text \<open>\<^verbatim>\<open>toLowerCase\<close> and \<^verbatim>\<open>toUpperCase\<close> on ASCII characters; JavaScript also maps letters outside
  ASCII (U+00C9 to U+00E9, for one), which are not modelled.\<close>

definition toLowerChar :: "char \<Rightarrow> char" where
  "toLowerChar c = (if isUpperAZ c then char_of (of_char c + (32::nat)) else c)"

definition toUpperChar :: "char \<Rightarrow> char" where
  "toUpperChar c = (if isLowerAZ c then char_of (of_char c - (32::nat)) else c)"

definition toLowerCase :: "string \<Rightarrow> string" where
  "toLowerCase s = map toLowerChar s"

definition toUpperCase :: "string \<Rightarrow> string" where
  "toUpperCase s = map toUpperChar s"

definition trim :: "string \<Rightarrow> string" where
  "trim s = rev (dropWhile isSpace (rev (dropWhile isSpace s)))"

text \<open>\<^verbatim>\<open>xs.join(sep)\<close> on an array of strings.\<close>

fun join :: "string \<Rightarrow> string list \<Rightarrow> string" where
  "join sep [] = []"
| "join sep [x] = x"
| "join sep (x # y # ys) = x @ sep @ join sep (y # ys)"

definition startsWith :: "string \<Rightarrow> string \<Rightarrow> bool" where
  "startsWith s p = (take (length p) s = p)"

text \<open>\<^verbatim>\<open>s.split('.')\<close>: the pieces between the dots; a string without a dot is one piece.\<close>

fun splitDot :: "string \<Rightarrow> string list" where
  "splitDot [] = [[]]"
| "splitDot (c # cs) =
     (if c = CHR ''.'' then [] # splitDot cs
      else (case splitDot cs of [] \<Rightarrow> [[c]] | p # ps \<Rightarrow> (c # p) # ps))"

text \<open>\<^verbatim>\<open>xs[i]\<close>: \<^verbatim>\<open>undefined\<close> out of range.\<close>

definition nth_opt :: "'a list \<Rightarrow> nat \<Rightarrow> 'a option" where
  "nth_opt xs i = (if i < length xs then Some (xs ! i) else None)"

text \<open>The regular expression \<^verbatim>\<open>/^[a-f0-9]{24}$/\<close>: the shape of an object identifier.\<close>

definition isHexLower :: "char \<Rightarrow> bool" where
  "isHexLower c = ((CHR ''a'' \<le> c \<and> c \<le> CHR ''f'') \<or> isDigit c)"

definition matchesHex24 :: "string \<Rightarrow> bool" where
  "matchesHex24 s = (length s = 24 \<and> list_all isHexLower s)"

definition newline :: string where
  "newline = [CHR 0x0A]"

definition dquote :: string where
  "dquote = [CHR 0x22]"

text \<open>The bullet U+2022 and the arrow U+2192 of the templates, in UTF-8.\<close>

definition bullet :: string where
  "bullet = [CHR 0xE2, CHR 0x80, CHR 0xA2]"

definition rightArrow :: string where
  "rightArrow = [CHR 0xE2, CHR 0x86, CHR 0x92]"

text \<open>Decimal printing of integers, as \<^verbatim>\<open>String(n)\<close> and template interpolation do.\<close>

fun showNat :: "nat \<Rightarrow> string" where
  "showNat n = (if n < 10 then [char_of (48 + n)] else showNat (n div 10) @ [char_of (48 + n mod 10)])"

declare showNat.simps [simp del]

definition showInt :: "int \<Rightarrow> string" where
  "showInt i = (if i < 0 then CHR ''-'' # showNat (nat (- i)) else showNat (nat i))"

section \<open>The generic humanizer \<^verbatim>\<open>formatKey\<close> (App.jsx, lines 65-74)\<close>

text \<open>\<^verbatim>\<open>.replace(/([A-Z])/g, " $1")\<close>\<close>

definition spaceBeforeCapitals :: "string \<Rightarrow> string" where
  "spaceBeforeCapitals s = concat (map (\<lambda>c. if isUpperAZ c then [CHR '' '', c] else [c]) s)"

text \<open>\<^verbatim>\<open>.replace(/_/g, " ")\<close>\<close>

definition underscoresToSpaces :: "string \<Rightarrow> string" where
  "underscoresToSpaces s = map (\<lambda>c. if c = CHR ''_'' then CHR '' '' else c) s"

text \<open>\<^verbatim>\<open>.replace(/\s+/g, " ")\<close>: every maximal run of blanks becomes one space.\<close>

function collapseSpaces :: "string \<Rightarrow> string" where
  "collapseSpaces [] = []"
| "collapseSpaces (c # cs) =
     (if isSpace c then CHR '' '' # collapseSpaces (dropWhile isSpace cs)
      else c # collapseSpaces cs)"
  by pat_completeness auto
termination
  by (relation "measure length") (auto simp: length_dropWhile_le less_Suc_eq_le)

text \<open>\<^verbatim>\<open>.replace(/^\w/, (c) => c.toUpperCase())\<close>\<close>

definition capitalizeFirst :: "string \<Rightarrow> string" where
  "capitalizeFirst s =
     (case s of [] \<Rightarrow> []
      | c # cs \<Rightarrow> (if isWordChar c then toUpperChar c # cs else c # cs))"

definition formatKey :: "string \<Rightarrow> string" where
  "formatKey key =
     (if key = [] then []
      else capitalizeFirst (toLowerCase (trim (collapseSpaces
             (underscoresToSpaces (spaceBeforeCapitals key))))))"

section \<open>JavaScript values\<close>

text \<open>The primitive values a parsed JSON document holds, and \<^verbatim>\<open>undefined\<close> for a field that is
  not there.\<close>

datatype jsval = JUndefined | JNull | JBool bool | JNum int | JStr string

text \<open>\<^verbatim>\<open>String(v)\<close>, which is also what a template literal and a property key make of \<open>v\<close>.\<close>

fun String_js :: "jsval \<Rightarrow> string" where
  "String_js JUndefined = ''undefined''"
| "String_js JNull = ''null''"
| "String_js (JBool b) = (if b then ''true'' else ''false'')"
| "String_js (JNum n) = showInt n"
| "String_js (JStr s) = s"

fun truthy :: "jsval \<Rightarrow> bool" where
  "truthy JUndefined = False"
| "truthy JNull = False"
| "truthy (JBool b) = b"
| "truthy (JNum n) = (n \<noteq> 0)"
| "truthy (JStr s) = (s \<noteq> [])"

text \<open>The result of \<^verbatim>\<open>Number(v)\<close>: an integer or \<^verbatim>\<open>NaN\<close>.\<close>

datatype jsnum = NaN | Fin int

definition digitsValue :: "string \<Rightarrow> int" where
  "digitsValue ds = foldl (\<lambda>acc c. 10 * acc + (int (of_char c) - 48)) 0 ds"

text \<open>
  \<^verbatim>\<open>Number(s)\<close> on a string: blanks around the numeral are dropped, the empty string is \<open>0\<close>, a
  decimal numeral with an optional sign is its value. Every other string is \<^verbatim>\<open>NaN\<close> here; the
  other notations JavaScript reads as numbers (fractions, exponents, \<^verbatim>\<open>0x\<close>/\<^verbatim>\<open>0o\<close>/\<^verbatim>\<open>0b\<close>
  prefixes, \<^verbatim>\<open>Infinity\<close>) are not integers in decimal notation and lie outside this model.\<close>

definition stringToNumber :: "string \<Rightarrow> jsnum" where
  "stringToNumber s =
     (let t = trim s in
      if t = [] then Fin 0
      else if list_all isDigit t then Fin (digitsValue t)
      else (case t of
              c # ds \<Rightarrow>
                (if ds \<noteq> [] \<and> list_all isDigit ds \<and> c = CHR ''-'' then Fin (- digitsValue ds)
                 else if ds \<noteq> [] \<and> list_all isDigit ds \<and> c = CHR ''+'' then Fin (digitsValue ds)
                 else NaN)
            | [] \<Rightarrow> NaN))"

fun Number_js :: "jsval \<Rightarrow> jsnum" where
  "Number_js JUndefined = NaN"
| "Number_js JNull = Fin 0"
| "Number_js (JBool b) = Fin (if b then 1 else 0)"
| "Number_js (JNum n) = Fin n"
| "Number_js (JStr s) = stringToNumber s"

text \<open>The property key a number makes: \<^verbatim>\<open>obj[7]\<close> is \<^verbatim>\<open>obj["7"]\<close>, \<^verbatim>\<open>obj[NaN]\<close> is \<^verbatim>\<open>obj["NaN"]\<close>.\<close>

fun numberKey :: "jsnum \<Rightarrow> string" where
  "numberKey NaN = ''NaN''"
| "numberKey (Fin n) = showInt n"

text \<open>Text fields: truthiness, \<^verbatim>\<open>a || b\<close>, \<^verbatim>\<open>a ?? b\<close>, interpolation and use as a property key.\<close>

definition truthyS :: "string option \<Rightarrow> bool" where
  "truthyS x = (case x of None \<Rightarrow> False | Some s \<Rightarrow> s \<noteq> [])"

definition orElse :: "string option \<Rightarrow> string option \<Rightarrow> string option" where
  "orElse a b = (if truthyS a then a else b)"

definition coalesce :: "'a option \<Rightarrow> 'a option \<Rightarrow> 'a option" where
  "coalesce a b = (case a of None \<Rightarrow> b | Some x \<Rightarrow> Some x)"

definition interp :: "string option \<Rightarrow> string" where
  "interp x = (case x of None \<Rightarrow> ''undefined'' | Some s \<Rightarrow> s)"

text \<open>\<^verbatim>\<open>a || "default"\<close> with a text default.\<close>

definition orText :: "string option \<Rightarrow> string \<Rightarrow> string" where
  "orText a d = (case a of None \<Rightarrow> d | Some s \<Rightarrow> if s = [] then d else s)"

section \<open>The input: workflow definitions\<close>

text \<open>An option or choice: \<^verbatim>\<open>{id, name, label, displayName, value}\<close>.\<close>

record choice =
  c_id :: "string option"
  c_name :: "string option"
  c_label :: "string option"
  c_displayName :: "string option"
  c_value :: "string option"

text \<open>An entry of \<^verbatim>\<open>data.propertyFilters.fields\<close>.\<close>

record filterField =
  ff_field :: "string option"
  ff_displayName :: "string option"
  ff_externalId :: "string option"
  ff_fieldType :: "string option"
  ff_op :: "string option"
  ff_selector :: "string option"
  ff_values :: "jsval list"
  ff_referencedParameterId :: "string option"

text \<open>\<^verbatim>\<open>param.data\<close> when it is an object. \<open>d_choices\<close> and \<open>d_options\<close> are \<^term>\<open>None\<close> unless the
  field is an array (\<^verbatim>\<open>Array.isArray\<close>); \<open>d_propertyFilterFields\<close> is \<^verbatim>\<open>data.propertyFilters.fields\<close>.\<close>

record dataObject =
  d_choices :: "choice list option"
  d_options :: "choice list option"
  d_propertyFilterFields :: "filterField list"
  d_collection :: "string option"
  d_objectTypeDisplayName :: "string option"
  d_text :: "string option"

datatype paramData = DataAbsent | DataArray "choice list" | DataObject dataObject

text \<open>An entry of one of the five typed validation lists. The last three fields are the ones
  \<^verbatim>\<open>collectParam\<close> reads on the entries of \<^verbatim>\<open>propertyValidations\<close>.\<close>

record validationItem =
  v_constraint :: "string option"
  v_selector :: "string option"
  v_value :: jsval
  v_dateUnit :: "string option"
  v_errorMessage :: "string option"
  v_referencedParameterId :: "string option"
  v_propertyId :: "string option"
  v_parameterLabel :: "string option"
  v_minValue :: jsval
  v_maxValue :: jsval
  v_options :: "choice list"
  v_propertyDisplayName :: "string option"
  v_propertyExternalId :: "string option"

text \<open>\<^verbatim>\<open>validation.customValidations\<close>: an object, given by its keys in \<^verbatim>\<open>Object.keys\<close> order, each
  with the JSON text \<^verbatim>\<open>JSON.stringify\<close> prints for its value; or a primitive value.\<close>

datatype customValidation = CustomObject "(string \<times> string) list" | CustomValue jsval

record validation =
  exceptionApprovalType :: "string option"
  dateTimeParameterValidations :: "validationItem list"
  criteriaValidations :: "validationItem list"
  propertyValidations :: "validationItem list"
  resourceParameterValidations :: "validationItem list"
  relationPropertyValidations :: "validationItem list"
  customValidations :: "customValidation option"

text \<open>A visibility rule: \<^verbatim>\<open>rule.input\<close> and \<^verbatim>\<open>rule.show.parameters\<close>.\<close>

record rule =
  r_input :: "string list"
  r_showParameters :: "string list"

record param =
  p_id :: "string option"
  p_label :: "string option"
  p_type :: "string option"
  p_mandatory :: bool
  p_verificationType :: "string option"
  p_data :: paramData
  p_validations :: "validation list"
  p_rules :: "rule list"

record configuration =
  cfg_parameterLabel :: "string option"
  cfg_parameterDisplayName :: "string option"
  cfg_parameterId :: "string option"

record actionDetails =
  ad_objectTypeDisplayName :: "string option"
  ad_referencedParameterId :: "string option"
  ad_choices :: "choice list"
  ad_configuration :: "configuration list"

record automation =
  a_triggerType :: "string option"
  a_actionType :: "string option"
  a_displayName :: "string option"
  a_actionDetails :: "actionDetails option"

record executorLock =
  hasToBeExecutorId :: jsval
  cannotBeExecutorIds :: "jsval list"

record task =
  t_id :: jsval
  t_name :: "string option"
  t_orderTree :: "int option"
  t_parameterRequests :: "param list"
  t_automationRequests :: "automation list"
  t_prerequisiteTaskIds :: "jsval list"
  t_taskExecutorLock :: "executorLock option"

record stage =
  s_name :: "string option"
  s_orderTree :: "int option"
  s_taskRequests :: "task list"

text \<open>A property of an object definition, with its choices.\<close>

record property =
  pr_id :: "string option"
  pr_displayName :: "string option"
  pr_name :: "string option"
  pr_label :: "string option"
  pr_choices :: "choice list"

text \<open>\<open>objects\<close> holds \<^verbatim>\<open>obj.properties\<close> of every entry of \<^verbatim>\<open>wf.objects\<close>, and \<open>objectRequests\<close>
  holds \<^verbatim>\<open>obj.propertyRequests\<close> of every entry of \<^verbatim>\<open>wf.objectRequests\<close>.\<close>

record workflow =
  stageRequests :: "stage list"
  parameterRequests :: "param list"
  objects :: "property list list"
  objectRequests :: "property list list"

section \<open>The lookup tables\<close>

record taskInfo =
  taskName :: "string option"
  stageName :: "string option"
  stageOrder :: int
  taskOrder :: int

type_synonym taskMap = "string \<Rightarrow> taskInfo option"

text \<open>A table cell holds what was assigned: a text, or \<^verbatim>\<open>undefined\<close> (\<^term>\<open>None\<close>), which reads like
  a missing key.\<close>

type_synonym lookupTable = "string \<Rightarrow> string option"

record tables =
  parameterMap :: lookupTable
  propertyNameMap :: lookupTable
  optionMap :: lookupTable
  visibilityMap :: lookupTable

definition emptyTables :: tables where
  "emptyTables = \<lparr> parameterMap = Map.empty, propertyNameMap = Map.empty,
                    optionMap = Map.empty, visibilityMap = Map.empty \<rparr>"

section \<open>The task position index (App.jsx, lines 186-210)\<close>

text \<open>\<^verbatim>\<open>obj[v]\<close> turns \<open>v\<close> into a property key with \<^verbatim>\<open>String\<close>.\<close>

definition propertyKey :: "jsval \<Rightarrow> string" where
  "propertyKey v = String_js v"

text \<open>The body of the inner \<^verbatim>\<open>forEach\<close>: the three assignments
  \<^verbatim>\<open>taskMap[task.id]\<close>, \<^verbatim>\<open>taskMap[String(task.id)]\<close>, \<^verbatim>\<open>taskMap[Number(task.id)]\<close>.\<close>

definition registerTask :: "stage \<Rightarrow> int \<Rightarrow> taskMap \<Rightarrow> nat \<times> task \<Rightarrow> taskMap" where
  "registerTask stage stageOrd tm entry =
     (let taskIdx = fst entry; task = snd entry;
          taskOrd = (case t_orderTree task of Some n \<Rightarrow> n | None \<Rightarrow> int taskIdx + 1);
          info = \<lparr> taskName = t_name task, stageName = s_name stage,
                   stageOrder = stageOrd, taskOrder = taskOrd \<rparr>;
          tm1 = tm (propertyKey (t_id task) \<mapsto> info);
          tm2 = tm1 (propertyKey (JStr (String_js (t_id task))) \<mapsto> info);
          tm3 = tm2 (numberKey (Number_js (t_id task)) \<mapsto> info)
      in tm3)"

definition registerStage :: "taskMap \<Rightarrow> nat \<times> stage \<Rightarrow> taskMap" where
  "registerStage tm entry =
     (let stageIdx = fst entry; stage = snd entry;
          stageOrd = (case s_orderTree stage of Some n \<Rightarrow> n | None \<Rightarrow> int stageIdx + 1)
      in foldl (registerTask stage stageOrd) tm (enumerate 0 (s_taskRequests stage)))"

definition buildTaskMap :: "workflow \<Rightarrow> taskMap" where
  "buildTaskMap w = foldl registerStage Map.empty (enumerate 0 (stageRequests w))"

text \<open>\<^verbatim>\<open>taskMap[taskId] || taskMap[String(taskId)] || taskMap[Number(taskId)] || null\<close>; a stored
  info object is always truthy.\<close>

definition lookupTask :: "taskMap \<Rightarrow> jsval \<Rightarrow> taskInfo option" where
  "lookupTask tm taskId =
     (case tm (propertyKey taskId) of
        Some info \<Rightarrow> Some info
      | None \<Rightarrow>
          (case tm (propertyKey (JStr (String_js taskId))) of
             Some info \<Rightarrow> Some info
           | None \<Rightarrow> tm (numberKey (Number_js taskId))))"

section \<open>The formatters (App.jsx, lines 212-286)\<close>

definition constraintMappings :: "(string \<times> string) list" where
  "constraintMappings =
     [(''EQ'', ''equals''), (''NEQ'', ''not equals''), (''NE'', ''not equals''),
      (''LT'', ''is less than''), (''LTE'', ''is less than or equal to''),
      (''LE'', ''is less than or equal to''), (''GT'', ''is greater than''),
      (''GTE'', ''is greater than or equal to''), (''GE'', ''is greater than or equal to''),
      (''CONTAINS'', ''contains''), (''NOT_CONTAINS'', ''does not contain''),
      (''STARTS_WITH'', ''starts with''), (''ENDS_WITH'', ''ends with''),
      (''IN'', ''is in''), (''NOT_IN'', ''is not in''), (''BETWEEN'', ''is between''),
      (''IS_NULL'', ''is empty''), (''IS_NOT_NULL'', ''is not empty'')]"

definition exceptionMappings :: "(string \<times> string) list" where
  "exceptionMappings =
     [(''DEFAULT_FLOW'', ''Halt Parameter Exception''),
      (''HALT_PARAMETER_EXCEPTION'', ''Halt Parameter Exception''),
      (''SKIP_EXCEPTION'', ''Skip Exception''), (''WARNING_ONLY'', ''Warning Only''),
      (''WARNING'', ''Warning Only''), (''APPROVAL_REQUIRED'', ''Approval Required''),
      (''SOFT_EXCEPTION'', ''Soft Exception''), (''HARD_EXCEPTION'', ''Hard Exception'')]"

definition selectorMappings :: "(string \<times> string) list" where
  "selectorMappings =
     [(''CONSTANT'', ''Constant''), (''PARAMETER'', ''Parameter''), (''PROPERTY'', ''Property''),
      (''VARIABLE'', ''Variable''), (''EXPRESSION'', ''Expression''), (''NONE'', ''None'')]"

definition unitMappings :: "(string \<times> string) list" where
  "unitMappings =
     [(''DAYS'', ''Days from today''), (''DAY'', ''Days from today''),
      (''HOURS'', ''Hours from now''), (''HOUR'', ''Hours from now''),
      (''MINUTES'', ''Minutes from now''), (''MINUTE'', ''Minutes from now''),
      (''WEEKS'', ''Weeks from today''), (''WEEK'', ''Weeks from today''),
      (''MONTHS'', ''Months from today''), (''MONTH'', ''Months from today''),
      (''YEARS'', ''Years from today''), (''YEAR'', ''Years from today'')]"

text \<open>\<^verbatim>\<open>mappings[code.toUpperCase()] || formatKey(code)\<close>; every text of the dictionaries is
  truthy.\<close>

definition formatWith :: "(string \<times> string) list \<Rightarrow> string \<Rightarrow> string" where
  "formatWith mappings code =
     (case map_of mappings (toUpperCase code) of Some t \<Rightarrow> t | None \<Rightarrow> formatKey code)"

definition formatConstraint :: "string option \<Rightarrow> string" where
  "formatConstraint c = (if \<not> truthyS c then [] else formatWith constraintMappings (interp c))"

definition formatExceptionType :: "string option \<Rightarrow> string" where
  "formatExceptionType e =
     (if \<not> truthyS e then ''Default'' else formatWith exceptionMappings (interp e))"

definition formatSelector :: "string option \<Rightarrow> string" where
  "formatSelector s = (if \<not> truthyS s then [] else formatWith selectorMappings (interp s))"

definition formatUnit :: "string option \<Rightarrow> string" where
  "formatUnit u = (if \<not> truthyS u then [] else formatWith unitMappings (interp u))"

section \<open>The reference index builder (App.jsx, lines 288-405)\<close>

text \<open>The option list of a parameter, whichever of the three shapes it has.\<close>

definition optionsOf :: "param \<Rightarrow> choice list" where
  "optionsOf param =
     (case p_data param of
        DataArray xs \<Rightarrow> xs
      | DataObject d \<Rightarrow>
          (case d_choices d of
             Some xs \<Rightarrow> xs
           | None \<Rightarrow> (case d_options d of Some xs \<Rightarrow> xs | None \<Rightarrow> []))
      | DataAbsent \<Rightarrow> [])"

text \<open>\<^verbatim>\<open>param.data?.propertyFilters?.fields\<close>, empty when any link is missing.\<close>

definition filterFieldsOf :: "param \<Rightarrow> filterField list" where
  "filterFieldsOf param =
     (case p_data param of DataObject d \<Rightarrow> d_propertyFilterFields d | _ \<Rightarrow> [])"

text \<open>Lines 302-306: one option of a parameter, written with \<^verbatim>\<open>??\<close>.\<close>

definition registerOption :: "lookupTable \<Rightarrow> choice \<Rightarrow> lookupTable" where
  "registerOption om opt =
     (let om1 = (if truthyS (c_id opt)
                 then om (interp (c_id opt) :=
                        coalesce (c_name opt) (coalesce (c_label opt)
                          (coalesce (c_displayName opt) (c_id opt))))
                 else om);
          om2 = (if truthyS (c_name opt) then om1 (interp (c_name opt) := c_name opt) else om1);
          om3 = (if truthyS (c_value opt)
                 then om2 (interp (c_value opt) :=
                        coalesce (c_name opt) (coalesce (c_label opt)
                          (coalesce (c_displayName opt) (c_value opt))))
                 else om2)
      in om3)"

text \<open>Lines 336, 371, 382, 399: a choice of a property, of a property validation or of an
  automation, written with \<^verbatim>\<open>||\<close>.\<close>

definition registerChoice :: "lookupTable \<Rightarrow> choice \<Rightarrow> lookupTable" where
  "registerChoice om ch =
     (if truthyS (c_id ch)
      then om (interp (c_id ch) :=
             orElse (c_displayName ch) (orElse (c_name ch) (orElse (c_label ch) (c_id ch))))
      else om)"

text \<open>Lines 310-326: one filter field; the property identifier is the second piece of
  \<^verbatim>\<open>searchable.<id>\<close>.\<close>

definition registerFilter :: "lookupTable \<Rightarrow> filterField \<Rightarrow> lookupTable" where
  "registerFilter pm f =
     (let pm1 =
            (if truthyS (ff_field f) \<and> startsWith (interp (ff_field f)) ''searchable.''
             then (let propId = interp (nth_opt (splitDot (interp (ff_field f))) 1)
                   in if truthyS (ff_displayName f) then pm (propId := ff_displayName f)
                      else if truthyS (ff_externalId f) then pm (propId := ff_externalId f)
                      else pm)
             else pm);
          pm2 = (if truthyS (ff_displayName f) \<and> truthyS (ff_field f)
                 then pm1 (interp (ff_field f) := ff_displayName f)
                 else pm1)
      in pm2)"

text \<open>Lines 332-346: one entry of \<^verbatim>\<open>validation.propertyValidations\<close>.\<close>

definition registerPropertyValidation :: "tables \<Rightarrow> validationItem \<Rightarrow> tables" where
  "registerPropertyValidation tb pv =
     (let tb1 = tb \<lparr> optionMap := foldl registerChoice (optionMap tb) (v_options pv) \<rparr>;
          propName = orElse (v_propertyDisplayName pv) (v_propertyExternalId pv)
      in if truthyS (v_propertyId pv) \<and> truthyS propName
         then tb1 \<lparr> propertyNameMap := (propertyNameMap tb1) (interp (v_propertyId pv) := propName) \<rparr>
         else tb1)"

text \<open>Lines 351-360: one visibility rule of a parameter.\<close>

definition visibilitySentence :: "string option \<Rightarrow> string \<Rightarrow> string" where
  "visibilitySentence triggerLabel inputValues =
     ''Visible when '' @ dquote @ interp triggerLabel @ dquote @ '' is '' @ dquote
       @ inputValues @ dquote"

definition registerRule :: "param \<Rightarrow> tables \<Rightarrow> rule \<Rightarrow> tables" where
  "registerRule param tb r =
     (let inputValues = join '' / '' (map (\<lambda>inp. orText (optionMap tb inp) inp) (r_input r))
      in tb \<lparr> visibilityMap :=
                foldl (\<lambda>vm targetId. vm (targetId \<mapsto> visibilitySentence (p_label param) inputValues))
                  (visibilityMap tb) (r_showParameters r) \<rparr>)"

definition collectParam :: "tables \<Rightarrow> param \<Rightarrow> tables" where
  "collectParam tb param =
     (let tb1 = tb \<lparr> parameterMap := (parameterMap tb) (interp (p_id param) := p_label param),
                     propertyNameMap := (propertyNameMap tb) (interp (p_id param) := p_label param) \<rparr>;
          tb2 = tb1 \<lparr> optionMap := foldl registerOption (optionMap tb1) (optionsOf param) \<rparr>;
          tb3 = tb2 \<lparr> propertyNameMap :=
                        foldl registerFilter (propertyNameMap tb2) (filterFieldsOf param) \<rparr>;
          tb4 = foldl (\<lambda>t validation. foldl registerPropertyValidation t (propertyValidations validation))
                  tb3 (p_validations param);
          tb5 = foldl (registerRule param) tb4 (p_rules param)
      in tb5)"

text \<open>Lines 365-386: the properties of the object definitions.\<close>

definition registerProperty :: "tables \<Rightarrow> property \<Rightarrow> tables" where
  "registerProperty tb p =
     tb \<lparr> propertyNameMap := (propertyNameMap tb) (interp (pr_id p) :=
              orElse (pr_displayName p) (orElse (pr_name p) (orElse (pr_label p) (pr_id p)))),
          optionMap := foldl registerChoice (optionMap tb) (pr_choices p) \<rparr>"

text \<open>Lines 395-403: the choices of an automation's action details.\<close>

definition registerAutomation :: "tables \<Rightarrow> automation \<Rightarrow> tables" where
  "registerAutomation tb auto =
     (case a_actionDetails auto of
        None \<Rightarrow> tb
      | Some ad \<Rightarrow> tb \<lparr> optionMap := foldl registerChoice (optionMap tb) (ad_choices ad) \<rparr>)"

definition collectTask :: "tables \<Rightarrow> task \<Rightarrow> tables" where
  "collectTask tb task =
     foldl registerAutomation (foldl collectParam tb (t_parameterRequests task))
       (t_automationRequests task)"

text \<open>All four tables of one definition, built from empty tables in the order of the source:
  objects, object requests, creation-form parameters, then the tasks of every stage.\<close>

definition buildTables :: "workflow \<Rightarrow> tables" where
  "buildTables w =
     (let tb1 = foldl (foldl registerProperty) emptyTables (objects w);
          tb2 = foldl (foldl registerProperty) tb1 (objectRequests w);
          tb3 = foldl collectParam tb2 (parameterRequests w);
          tb4 = foldl (\<lambda>t stage. foldl collectTask t (s_taskRequests stage)) tb3 (stageRequests w)
      in tb4)"

section \<open>The filters synthesizer (App.jsx, lines 407-472)\<close>

text \<open>Lines 419-434: the display name of the filter's key.\<close>

definition resolveFieldName :: "tables \<Rightarrow> filterField \<Rightarrow> string option" where
  "resolveFieldName tb f =
     (case orElse (ff_displayName f) (orElse (ff_externalId f) (orElse (ff_field f) None)) of
        None \<Rightarrow> None
      | Some fieldName \<Rightarrow>
          if startsWith fieldName ''searchable.''
          then propertyNameMap tb (interp (nth_opt (splitDot fieldName) 1))
          else if matchesHex24 fieldName then propertyNameMap tb fieldName
          else if fieldName \<noteq> [] \<and> CHR ''.'' \<notin> set fieldName \<and> \<not> matchesHex24 fieldName
          then Some fieldName
          else None)"

text \<open>Lines 448-455: the callback of \<^verbatim>\<open>f.values.map\<close>; \<^term>\<open>JNull\<close> marks a value to remove.\<close>

definition resolveFilterValue :: "tables \<Rightarrow> jsval \<Rightarrow> jsval" where
  "resolveFilterValue tb val =
     (case val of
        JStr s \<Rightarrow>
          if matchesHex24 s
          then (let resolved = orElse (optionMap tb s) (propertyNameMap tb s)
                in if truthyS resolved then JStr (interp resolved) else JNull)
          else val
      | _ \<Rightarrow> val)"

definition resolvedValues :: "tables \<Rightarrow> jsval list \<Rightarrow> jsval list" where
  "resolvedValues tb vals = filter (\<lambda>v. v \<noteq> JNull) (map (resolveFilterValue tb) vals)"

text \<open>\<^verbatim>\<open>vals.join(sep)\<close> on primitive values: \<^verbatim>\<open>null\<close> and \<^verbatim>\<open>undefined\<close> print as the empty
  string.\<close>

definition joinItem :: "jsval \<Rightarrow> string" where
  "joinItem v = (if v = JUndefined \<or> v = JNull then [] else String_js v)"

definition joinValues :: "string \<Rightarrow> jsval list \<Rightarrow> string" where
  "joinValues sep vals = join sep (map joinItem vals)"

text \<open>Lines 445-462: the \<^verbatim>\<open>Values:\<close> line of one filter, if any.\<close>

definition valuesPart :: "tables \<Rightarrow> filterField \<Rightarrow> string list" where
  "valuesPart tb f =
     (if ff_values f \<noteq> [] \<and> truthyS (ff_selector f)
         \<and> toUpperCase (interp (ff_selector f)) \<noteq> ''PARAMETER''
      then (let rv = resolvedValues tb (ff_values f)
            in if rv \<noteq> [] then [''Values: '' @ joinValues '', '' rv] else [])
      else [])"

text \<open>Lines 416-467: the array \<^verbatim>\<open>parts\<close> of one filter.\<close>

definition filterParts :: "tables \<Rightarrow> filterField \<Rightarrow> string list" where
  "filterParts tb f =
     (let resolvedFieldName = resolveFieldName tb f
      in (if truthyS resolvedFieldName then [''Field: '' @ interp resolvedFieldName] else [])
       @ (if truthyS (ff_fieldType f) then [''Type: '' @ formatKey (interp (ff_fieldType f))] else [])
       @ (if truthyS (ff_op f) then [''Condition: '' @ formatConstraint (ff_op f)] else [])
       @ (if truthyS (ff_selector f) then [''Selector: '' @ formatSelector (ff_selector f)] else [])
       @ valuesPart tb f
       @ (if truthyS (ff_referencedParameterId f)
          then [''Referenced Parameter: ''
                 @ orText (parameterMap tb (interp (ff_referencedParameterId f)))
                     (interp (ff_referencedParameterId f))]
          else []))"

definition filterLine :: "tables \<Rightarrow> nat \<times> filterField \<Rightarrow> string" where
  "filterLine tb entry =
     ''Filter '' @ showNat (fst entry + 1) @ '':'' @ newline @ ''  ''
       @ join (newline @ ''  '') (filterParts tb (snd entry))"

definition getFiltersText :: "tables \<Rightarrow> param \<Rightarrow> string" where
  "getFiltersText tb param =
     (let filterFields = filterFieldsOf param
      in if filterFields = [] then []
         else join (newline @ newline) (map (filterLine tb) (enumerate 0 filterFields)))"

section \<open>The validations synthesizer (App.jsx, lines 474-555)\<close>

text \<open>Lines 496-499: the value shown on the \<^verbatim>\<open>Value:\<close> line.\<close>

definition resolvedValue :: "tables \<Rightarrow> validationItem \<Rightarrow> jsval" where
  "resolvedValue tb v =
     (case v_value v of
        JStr s \<Rightarrow>
          if truthyS (v_selector v) \<and> toUpperCase (interp (v_selector v)) = ''CONSTANT''
             \<and> matchesHex24 s
          then JStr (orText (orElse (optionMap tb s) (propertyNameMap tb s)) s)
          else JStr s
      | other \<Rightarrow> other)"

text \<open>Lines 511-524: the \<^verbatim>\<open>Property:\<close> line, if any.\<close>

definition propertyPart :: "tables \<Rightarrow> validationItem \<Rightarrow> string list" where
  "propertyPart tb v =
     (if truthyS (v_propertyId v)
      then (let propertyId = interp (v_propertyId v);
                found = propertyNameMap tb propertyId;
                propName = (if \<not> truthyS found \<and> matchesHex24 propertyId then None
                            else if \<not> truthyS found then Some propertyId
                            else found)
            in if truthyS propName then [''  Property: '' @ interp propName] else [])
      else [])"

text \<open>Lines 488-528: the array \<^verbatim>\<open>parts\<close> of one validation item.\<close>

definition validationParts ::
  "tables \<Rightarrow> string \<Rightarrow> string \<Rightarrow> nat \<times> validationItem \<Rightarrow> string list" where
  "validationParts tb exceptionType typeName entry =
     (let idx = fst entry; v = snd entry
      in [typeName @ '' '' @ showNat (idx + 1) @ '':'', ''  Exception Type: '' @ exceptionType]
       @ (if truthyS (v_constraint v) then [''  Condition: '' @ formatConstraint (v_constraint v)] else [])
       @ (if truthyS (v_selector v) then [''  Selector: '' @ formatSelector (v_selector v)] else [])
       @ (if v_value v \<noteq> JUndefined \<and> v_value v \<noteq> JNull
          then [''  Value: '' @ String_js (resolvedValue tb v)] else [])
       @ (if truthyS (v_dateUnit v) then [''  Unit: '' @ formatUnit (v_dateUnit v)] else [])
       @ (if truthyS (v_errorMessage v)
          then [''  Error Message: '' @ dquote @ interp (v_errorMessage v) @ dquote] else [])
       @ (if truthyS (v_referencedParameterId v)
          then [''  Referenced Parameter: ''
                 @ orText (parameterMap tb (interp (v_referencedParameterId v)))
                     (interp (v_referencedParameterId v))]
          else [])
       @ propertyPart tb v
       @ (if truthyS (v_parameterLabel v) then [''  Parameter: '' @ interp (v_parameterLabel v)] else [])
       @ (if v_minValue v \<noteq> JUndefined then [''  Min Value: '' @ String_js (v_minValue v)] else [])
       @ (if v_maxValue v \<noteq> JUndefined then [''  Max Value: '' @ String_js (v_maxValue v)] else []))"

text \<open>\<^verbatim>\<open>processValidationArray\<close>: the texts one typed list adds to \<^verbatim>\<open>allValidationTexts\<close>.\<close>

definition processValidationArray ::
  "tables \<Rightarrow> string \<Rightarrow> validationItem list \<Rightarrow> string \<Rightarrow> string list" where
  "processValidationArray tb exceptionType validationArray typeName =
     map (\<lambda>entry. join newline (validationParts tb exceptionType typeName entry))
       (enumerate 0 validationArray)"

text \<open>Lines 540-551: the block of a custom validation payload.\<close>

definition customValidationTexts :: "string \<Rightarrow> customValidation option \<Rightarrow> string list" where
  "customValidationTexts exceptionType cv =
     (case cv of
        None \<Rightarrow> []
      | Some (CustomObject entries) \<Rightarrow>
          [join newline
             ([''Custom Validation:'', ''  Exception Type: '' @ exceptionType]
              @ map (\<lambda>kv. ''  '' @ formatKey (fst kv) @ '': '' @ snd kv) entries)]
      | Some (CustomValue x) \<Rightarrow>
          if truthy x
          then [join newline
                  [''Custom Validation:'', ''  Exception Type: '' @ exceptionType,
                   ''  Details: '' @ String_js x]]
          else [])"

definition validationTexts :: "tables \<Rightarrow> validation \<Rightarrow> string list" where
  "validationTexts tb validation =
     (let exceptionType = formatExceptionType (exceptionApprovalType validation)
      in processValidationArray tb exceptionType (dateTimeParameterValidations validation)
           ''Date/Time Validation''
       @ processValidationArray tb exceptionType (criteriaValidations validation)
           ''Criteria Validation''
       @ processValidationArray tb exceptionType (propertyValidations validation)
           ''Property Validation''
       @ processValidationArray tb exceptionType (resourceParameterValidations validation)
           ''Resource Validation''
       @ processValidationArray tb exceptionType (relationPropertyValidations validation)
           ''Relation Validation''
       @ customValidationTexts exceptionType (customValidations validation))"

definition getValidationsText :: "tables \<Rightarrow> param \<Rightarrow> string" where
  "getValidationsText tb param =
     (if p_validations param = [] then []
      else join (newline @ newline) (concat (map (validationTexts tb) (p_validations param))))"

section \<open>Dependencies and executor lock (App.jsx, lines 557-602)\<close>

definition taskPosition :: "taskInfo \<Rightarrow> string" where
  "taskPosition info =
     ''Task '' @ showInt (stageOrder info) @ ''.'' @ showInt (taskOrder info) @ '': ''
       @ interp (taskName info)"

definition dependencyLine :: "taskMap \<Rightarrow> jsval \<Rightarrow> string" where
  "dependencyLine tm taskId =
     (case lookupTask tm taskId of
        Some info \<Rightarrow>
          ''Stage '' @ showInt (stageOrder info) @ '': '' @ interp (stageName info) @ newline
            @ ''  '' @ rightArrow @ '' '' @ taskPosition info
      | None \<Rightarrow> ''Task ID: '' @ String_js taskId @ '' (not found in workflow)'')"

definition getDependenciesText :: "taskMap \<Rightarrow> task \<Rightarrow> string" where
  "getDependenciesText tm task =
     (let prereqs = t_prerequisiteTaskIds task
      in if prereqs = [] then ''N/A''
         else ''Tasks that need to be executed before this task:'' @ newline
                @ join newline (map (dependencyLine tm) prereqs))"

definition sameExecutorLine :: "taskMap \<Rightarrow> jsval \<Rightarrow> string" where
  "sameExecutorLine tm taskId =
     (case lookupTask tm taskId of
        Some info \<Rightarrow>
          ''Must be executed by same person as:'' @ newline @ ''  '' @ taskPosition info
            @ '' ('' @ interp (stageName info) @ '')''
      | None \<Rightarrow> ''Must be executed by same person as: Task ID '' @ String_js taskId)"

definition otherExecutorLine :: "taskMap \<Rightarrow> jsval \<Rightarrow> string" where
  "otherExecutorLine tm taskId =
     (case lookupTask tm taskId of
        Some info \<Rightarrow> taskPosition info @ '' ('' @ interp (stageName info) @ '')''
      | None \<Rightarrow> ''Task ID: '' @ String_js taskId)"

definition getExecutorLockText :: "taskMap \<Rightarrow> task \<Rightarrow> string" where
  "getExecutorLockText tm task =
     (case t_taskExecutorLock task of
        None \<Rightarrow> ''N/A''
      | Some lock \<Rightarrow>
          (let lines =
                 (if truthy (hasToBeExecutorId lock)
                  then [sameExecutorLine tm (hasToBeExecutorId lock)] else [])
               @ (if cannotBeExecutorIds lock \<noteq> []
                  then [''Cannot be executed by same person as:'' @ newline @ ''  ''
                         @ join (newline @ ''  '')
                             (map (otherExecutorLine tm) (cannotBeExecutorIds lock))]
                  else [])
           in if lines \<noteq> [] then join (newline @ newline) lines else ''N/A''))"

section \<open>The automation summarizer (App.jsx, lines 604-651)\<close>

definition allTaskParams :: "workflow \<Rightarrow> param list" where
  "allTaskParams w = concat (map t_parameterRequests (concat (map s_taskRequests (stageRequests w))))"

text \<open>Lines 619-623: the parameter an automation refers to, the creation form first.\<close>

definition findRefParam :: "workflow \<Rightarrow> string \<Rightarrow> param option" where
  "findRefParam w refId =
     (case find (\<lambda>p. p_id p = Some refId) (parameterRequests w) of
        Some p \<Rightarrow> Some p
      | None \<Rightarrow> find (\<lambda>p. p_id p = Some refId) (allTaskParams w))"

definition collectionOf :: "param \<Rightarrow> string option" where
  "collectionOf p = (case p_data p of DataObject d \<Rightarrow> d_collection d | _ \<Rightarrow> None)"

definition automationObjectType :: "workflow \<Rightarrow> actionDetails option \<Rightarrow> string" where
  "automationObjectType w details =
     (let declared = (case details of None \<Rightarrow> None | Some ad \<Rightarrow> ad_objectTypeDisplayName ad);
          refId = (case details of None \<Rightarrow> None | Some ad \<Rightarrow> ad_referencedParameterId ad);
          objectType = orText declared ''Unknown Object Type''
      in if objectType = ''Unknown Object Type'' \<and> truthyS refId
         then (case findRefParam w (interp refId) of
                 None \<Rightarrow> objectType
               | Some refParam \<Rightarrow>
                   if truthyS (collectionOf refParam) then interp (collectionOf refParam)
                   else objectType)
         else objectType)"

text \<open>Lines 627-638: the bulleted list of mapped parameters.\<close>

definition mappingLine :: "tables \<Rightarrow> configuration \<Rightarrow> string" where
  "mappingLine tb cfg =
     (let paramLabel =
            orText (orElse (cfg_parameterLabel cfg) (orElse (cfg_parameterDisplayName cfg)
                      (propertyNameMap tb (interp (cfg_parameterId cfg))))) []
      in if paramLabel \<noteq> [] then bullet @ '' '' @ paramLabel else [])"

definition automationMappings :: "tables \<Rightarrow> actionDetails option \<Rightarrow> string" where
  "automationMappings tb details =
     (case details of
        None \<Rightarrow> []
      | Some ad \<Rightarrow>
          join newline (filter (\<lambda>s. s \<noteq> []) (map (mappingLine tb) (ad_configuration ad))))"

definition automationBlock :: "workflow \<Rightarrow> tables \<Rightarrow> automation \<Rightarrow> string" where
  "automationBlock w tb auto =
     (let trigger = toLowerCase (underscoresToSpaces (orText (a_triggerType auto) []));
          action = toLowerCase (underscoresToSpaces (orText (a_actionType auto) []));
          name = orText (a_displayName auto) ''Unnamed Automation'';
          objectType = automationObjectType w (a_actionDetails auto);
          mappings = automationMappings tb (a_actionDetails auto)
      in join newline (filter (\<lambda>s. s \<noteq> [])
           [''Automation: '' @ name, ''Trigger: '' @ trigger, ''Action: '' @ action,
            ''Object Type: '' @ objectType,
            (if mappings \<noteq> [] then ''Parameters to be automated:'' @ newline @ mappings else [])]))"

definition buildAutomationText :: "workflow \<Rightarrow> tables \<Rightarrow> task \<Rightarrow> string" where
  "buildAutomationText w tb task =
     (if t_automationRequests task = [] then []
      else join (newline @ newline) (map (automationBlock w tb) (t_automationRequests task)))"

section \<open>The record builder \<^verbatim>\<open>makeRow\<close> (App.jsx, lines 653-703)\<close>

text \<open>A row is the object literal \<^verbatim>\<open>makeRow\<close> returns: its columns in the order they are
  written, each with its value, \<^term>\<open>None\<close> when the value is \<^verbatim>\<open>undefined\<close>.\<close>

type_synonym row = "(string \<times> string option) list"

text \<open>\<^verbatim>\<open>row[name]\<close>\<close>

definition column :: "row \<Rightarrow> string \<Rightarrow> string option" where
  "column r name = (case map_of r name of Some v \<Rightarrow> v | None \<Rightarrow> None)"

text \<open>\<^verbatim>\<open>xs.map((d) => d?.name || d?.label || d?.value).filter(Boolean).join(" \<bullet> ")\<close>, the bullet
  being U+2022.\<close>

definition optionNames :: "choice list \<Rightarrow> string" where
  "optionNames xs =
     join ('' '' @ bullet @ '' '')
       (map interp (filter truthyS
          (map (\<lambda>d. orElse (c_name d) (orElse (c_label d) (c_value d))) xs)))"

text \<open>Lines 665-674: the variable \<^verbatim>\<open>options\<close>.\<close>

definition optionsSummary :: "param \<Rightarrow> string" where
  "optionsSummary param =
     (case p_data param of
        DataArray xs \<Rightarrow> optionNames xs
      | DataObject d \<Rightarrow>
          (case d_choices d of
             Some xs \<Rightarrow> optionNames xs
           | None \<Rightarrow>
               if truthyS (d_collection d)
               then ''[Resource: '' @ interp (orElse (d_objectTypeDisplayName d) (d_collection d)) @ '']''
               else if truthyS (d_text d) then ''[Instruction Text]''
               else ''N/A'')
      | DataAbsent \<Rightarrow> ''N/A'')"

definition makeRow ::
  "tables \<Rightarrow> taskMap \<Rightarrow> string option \<Rightarrow> string option \<Rightarrow> param \<Rightarrow> string \<Rightarrow> task option \<Rightarrow> bool
     \<Rightarrow> row" where
  "makeRow tb tm stage task param automationText taskObj isLastParam =
     (let branchingText = orText (visibilityMap tb (interp (p_id param))) ''N/A'';
          validationsText = orText (Some (getValidationsText tb param)) ''N/A'';
          filtersText = orText (Some (getFiltersText tb param)) ''N/A'';
          dependenciesText =
            (case taskObj of
               Some t \<Rightarrow> if isLastParam then getDependenciesText tm t else ''N/A''
             | None \<Rightarrow> ''N/A'');
          executorLockText =
            (case taskObj of
               Some t \<Rightarrow> if isLastParam then getExecutorLockText tm t else ''N/A''
             | None \<Rightarrow> ''N/A'');
          automationDetails = (if isLastParam then orText (Some automationText) [] else []);
          options = optionsSummary param
      in [(''Stage Name'', stage),
          (''Activity Name'', task),
          (''Performer'', Some ''Performer/Verifier''),
          (''Activity Description in detail'',
             Some (''Performer provides input for '' @ interp (p_label param) @ ''.'')),
          (''Instruction Title'', p_label param),
          (''Options / Values'', Some (orText (Some options) ''N/A'')),
          (''Field Type'', Some (if p_mandatory param then ''Mandatory'' else ''Optional'')),
          (''Activity / Parameter Type'', Some (orText (p_type param) ''N/A'')),
          (''Dependencies'', Some dependenciesText),
          (''Executor Lock'', Some executorLockText),
          (''Branching'', Some branchingText),
          (''Filters'', Some filtersText),
          (''Validations'', Some validationsText),
          (''Automation Details'', Some automationDetails),
          (''Configuration Feasibility'', Some ''Configurable''),
          (''Configuration Feasibility Notes'', Some ''N/A''),
          (''Configuration Status'', Some ''Configured''),
          (''IS SELF VERIFICATION PRESENT?'',
             Some (if p_verificationType param = Some ''SELF'' \<or> p_verificationType param = Some ''BOTH''
                   then ''Enabled'' else ''Disabled'')),
          (''Tester Comments'', Some ''N/A''),
          (''IS PEER VERIFICATION PRESENT?'',
             Some (if p_verificationType param = Some ''BOTH'' then ''Enabled'' else ''Disabled'')),
          (''Tester Comments (B)'', Some ''N/A'')])"

section \<open>\<^verbatim>\<open>processWorkflow\<close> (App.jsx, lines 179-726)\<close>

text \<open>Lines 707-716: the rows one task pushes onto \<^verbatim>\<open>csvRows\<close>.\<close>

definition processTask ::
  "workflow \<Rightarrow> tables \<Rightarrow> taskMap \<Rightarrow> stage \<Rightarrow> row list \<Rightarrow> task \<Rightarrow> row list" where
  "processTask w tb tm stage csvRows task =
     (let automationText = buildAutomationText w tb task;
          params = t_parameterRequests task;
          lastIndex = int (length params) - 1
      in foldl (\<lambda>rows entry.
                  rows @ [makeRow tb tm (s_name stage) (t_name task) (snd entry) automationText
                            (Some task) (int (fst entry) = lastIndex)])
           csvRows (enumerate 0 params))"

definition processStage ::
  "workflow \<Rightarrow> tables \<Rightarrow> taskMap \<Rightarrow> row list \<Rightarrow> stage \<Rightarrow> row list" where
  "processStage w tb tm csvRows stage =
     foldl (processTask w tb tm stage) csvRows (s_taskRequests stage)"

text \<open>Lines 719-725: the rows of the creation form.\<close>

definition processCjf :: "workflow \<Rightarrow> tables \<Rightarrow> taskMap \<Rightarrow> row list \<Rightarrow> row list" where
  "processCjf w tb tm csvRows =
     (let cjfParams = parameterRequests w;
          cjfLastIndex = int (length cjfParams) - 1
      in foldl (\<lambda>rows entry.
                  rows @ [makeRow tb tm (Some ''Create Job Form'') (p_label (snd entry)) (snd entry) []
                            None (int (fst entry) = cjfLastIndex)])
           csvRows (enumerate 0 cjfParams))"

text \<open>The tables are local to the call: they are built from the definition alone. The call
  returns \<^verbatim>\<open>csvRows\<close> as the pushes leave it.\<close>

definition processWorkflow :: "workflow \<Rightarrow> row list \<Rightarrow> row list" where
  "processWorkflow w csvRows =
     (let tm = buildTaskMap w;
          tb = buildTables w;
          rows1 = foldl (processStage w tb tm) csvRows (stageRequests w)
      in processCjf w tb tm rows1)"

section \<open>The assembly in \<^verbatim>\<open>handleFileUpload\<close> (App.jsx, lines 154-161)\<close>

text \<open>\<^verbatim>\<open>jsonObjects.forEach((wf) => processWorkflow(wf, csvRows))\<close> on an empty \<^verbatim>\<open>csvRows\<close>.\<close>

definition collectRows :: "workflow list \<Rightarrow> row list" where
  "collectRows jsonObjects = foldl (\<lambda>csvRows w. processWorkflow w csvRows) [] jsonObjects"

definition isCjfRow :: "row \<Rightarrow> bool" where
  "isCjfRow r = (column r ''Stage Name'' = Some ''Create Job Form'')"

text \<open>\<^verbatim>\<open>sortedRows\<close>: the creation-form rows moved first.\<close>

definition moveCjfFirst :: "row list \<Rightarrow> row list" where
  "moveCjfFirst csvRows = filter isCjfRow csvRows @ filter (\<lambda>r. \<not> isCjfRow r) csvRows"

definition sortedRows :: "workflow list \<Rightarrow> row list" where
  "sortedRows jsonObjects = moveCjfFirst (collectRows jsonObjects)"

section \<open>Notions used in the proofs\<close>

text \<open>A string starts with a blank.\<close>

fun startsSpace :: "string \<Rightarrow> bool" where
  "startsSpace [] = False"
| "startsSpace (c # cs) = isSpace c"






text \<open>A filter or validation value that has the shape of an object identifier and is in
  neither the option table nor the property-name table.\<close>

definition unresolvedId :: "tables \<Rightarrow> jsval \<Rightarrow> bool" where
  "unresolvedId tb val =
     (case val of
        JStr s \<Rightarrow> matchesHex24 s \<and> optionMap tb s = None \<and> propertyNameMap tb s = None
      | _ \<Rightarrow> False)"

section \<open>Sample definitions\<close>

text \<open>Objects with every optional field absent; the samples below are updates of them.\<close>

definition plainChoice :: choice where
  "plainChoice = \<lparr> c_id = None, c_name = None, c_label = None, c_displayName = None,
                    c_value = None \<rparr>"

definition plainFilter :: filterField where
  "plainFilter = \<lparr> ff_field = None, ff_displayName = None, ff_externalId = None,
                    ff_fieldType = None, ff_op = None, ff_selector = None, ff_values = [],
                    ff_referencedParameterId = None \<rparr>"

definition plainData :: dataObject where
  "plainData = \<lparr> d_choices = None, d_options = None, d_propertyFilterFields = [],
                  d_collection = None, d_objectTypeDisplayName = None, d_text = None \<rparr>"

definition plainItem :: validationItem where
  "plainItem = \<lparr> v_constraint = None, v_selector = None, v_value = JUndefined, v_dateUnit = None,
                  v_errorMessage = None, v_referencedParameterId = None, v_propertyId = None,
                  v_parameterLabel = None, v_minValue = JUndefined, v_maxValue = JUndefined,
                  v_options = [], v_propertyDisplayName = None, v_propertyExternalId = None \<rparr>"

definition plainValidation :: validation where
  "plainValidation = \<lparr> exceptionApprovalType = None, dateTimeParameterValidations = [],
                        criteriaValidations = [], propertyValidations = [],
                        resourceParameterValidations = [], relationPropertyValidations = [],
                        customValidations = None \<rparr>"

definition plainParam :: param where
  "plainParam = \<lparr> p_id = None, p_label = None, p_type = None, p_mandatory = False,
                   p_verificationType = None, p_data = DataAbsent, p_validations = [],
                   p_rules = [] \<rparr>"

definition plainAutomation :: automation where
  "plainAutomation = \<lparr> a_triggerType = None, a_actionType = None, a_displayName = None,
                        a_actionDetails = None \<rparr>"

definition plainTask :: task where
  "plainTask = \<lparr> t_id = JUndefined, t_name = None, t_orderTree = None, t_parameterRequests = [],
                  t_automationRequests = [], t_prerequisiteTaskIds = [],
                  t_taskExecutorLock = None \<rparr>"

definition plainStage :: stage where
  "plainStage = \<lparr> s_name = None, s_orderTree = None, s_taskRequests = [] \<rparr>"

definition plainWorkflow :: workflow where
  "plainWorkflow = \<lparr> stageRequests = [], parameterRequests = [], objects = [],
                      objectRequests = [] \<rparr>"

text \<open>The end-to-end scenario of the specification: stage \<^verbatim>\<open>Intake\<close>, task \<^verbatim>\<open>Collect Info\<close> with a
  mandatory text parameter, an optional single-choice parameter and one automation.\<close>

definition intakeP1 :: param where
  "intakeP1 = plainParam \<lparr> p_id := Some ''p1'', p_label := Some ''Name'', p_type := Some ''TEXT'',
                            p_mandatory := True \<rparr>"

definition intakeP2 :: param where
  "intakeP2 = plainParam \<lparr> p_id := Some ''p2'', p_label := Some ''Approved'',
                            p_type := Some ''SINGLE_SELECT'',
                            p_data := DataArray
                              [plainChoice \<lparr> c_id := Some ''o1'', c_name := Some ''Yes'' \<rparr>,
                               plainChoice \<lparr> c_id := Some ''o2'', c_name := Some ''No'' \<rparr>] \<rparr>"

definition intakeTask :: task where
  "intakeTask = plainTask \<lparr> t_id := JStr ''101'', t_name := Some ''Collect Info'',
                             t_orderTree := Some 1,
                             t_parameterRequests := [intakeP1, intakeP2],
                             t_automationRequests :=
                               [plainAutomation \<lparr> a_displayName := Some ''Notify'' \<rparr>] \<rparr>"

definition intakeWorkflow :: workflow where
  "intakeWorkflow =
     plainWorkflow \<lparr> stageRequests :=
       [plainStage \<lparr> s_name := Some ''Intake'', s_taskRequests := [intakeTask] \<rparr>] \<rparr>"

definition intakeStage :: stage where
  "intakeStage = plainStage \<lparr> s_name := Some ''Intake'', s_taskRequests := [intakeTask] \<rparr>"

text \<open>A task with one parameter and neither prerequisites, executor lock nor automation.\<close>

definition bareTask :: task where
  "bareTask = plainTask \<lparr> t_id := JStr ''7'', t_name := Some ''Weigh'',
                           t_parameterRequests :=
                             [plainParam \<lparr> p_id := Some ''q1'', p_label := Some ''Weight'' \<rparr>] \<rparr>"

definition bareWorkflow :: workflow where
  "bareWorkflow =
     plainWorkflow \<lparr> stageRequests :=
       [plainStage \<lparr> s_name := Some ''Dispensing'', s_taskRequests := [bareTask] \<rparr>] \<rparr>"

text \<open>The same definition with one creation-form parameter.\<close>

definition formWorkflow :: workflow where
  "formWorkflow =
     bareWorkflow \<lparr> parameterRequests :=
       [plainParam \<lparr> p_id := Some ''c1'', p_label := Some ''Batch No'' \<rparr>] \<rparr>"

text \<open>A parameter verified by a peer only.\<close>

definition peerParam :: param where
  "peerParam = plainParam \<lparr> p_id := Some ''q2'', p_label := Some ''Line clearance'',
                             p_verificationType := Some ''PEER'' \<rparr>"

definition peerWorkflow :: workflow where
  "peerWorkflow =
     plainWorkflow \<lparr> stageRequests :=
       [plainStage \<lparr> s_name := Some ''Packing'',
          s_taskRequests := [plainTask \<lparr> t_id := JStr ''8'', t_name := Some ''Clear line'',
                                            t_parameterRequests := [peerParam] \<rparr>] \<rparr>] \<rparr>"


text \<open>An identifier-shaped text that no table knows, as a filter value and in a validation
  item.\<close>

definition strayId :: string where
  "strayId = ''0123456789abcdef01234567''"

definition strayItem :: validationItem where
  "strayItem = plainItem \<lparr> v_selector := Some ''CONSTANT'', v_value := JStr strayId,
                            v_propertyId := Some strayId \<rparr>"

definition strayValueWorkflow :: workflow where
  "strayValueWorkflow =
     plainWorkflow \<lparr> parameterRequests :=
       [plainParam \<lparr> p_id := Some ''c7'', p_label := Some ''Supplier'',
                      p_validations := [plainValidation \<lparr> criteriaValidations := [strayItem] \<rparr>] \<rparr>] \<rparr>"

definition strayFilter :: filterField where
  "strayFilter = plainFilter \<lparr> ff_field := Some ''status'', ff_op := Some ''EQ'',
                                ff_selector := Some ''CONSTANT'',
                                ff_values := [JStr strayId] \<rparr>"

text \<open>A filter with one value that resolves to nothing and one plain value, and a filter whose
  value is written with upper-case hexadecimal digits.\<close>

definition upperId :: string where
  "upperId = ''0123456789ABCDEF01234567''"

definition mixedFilter :: filterField where
  "mixedFilter = strayFilter \<lparr> ff_values := [JStr strayId, JStr ''Approved''] \<rparr>"

definition upperIdWorkflow :: workflow where
  "upperIdWorkflow =
     plainWorkflow \<lparr> parameterRequests :=
       [plainParam \<lparr> p_id := Some ''c8'', p_label := Some ''Batch'',
          p_data := DataObject (plainData \<lparr> d_propertyFilterFields :=
                      [strayFilter \<lparr> ff_values := [JStr upperId] \<rparr>] \<rparr>) \<rparr>] \<rparr>"

text \<open>Two tasks whose identifiers are not numerals; the second names a prerequisite \<^verbatim>\<open>T9\<close>
  that is no task of the definition.\<close>

definition strayTaskWorkflow :: workflow where
  "strayTaskWorkflow =
     plainWorkflow \<lparr> stageRequests :=
       [plainStage \<lparr> s_name := Some ''Mixing'',
          s_taskRequests :=
            [plainTask \<lparr> t_id := JStr ''T1'', t_name := Some ''Weigh'',
                          t_parameterRequests :=
                            [plainParam \<lparr> p_id := Some ''a'', p_label := Some ''Weight'' \<rparr>] \<rparr>,
             plainTask \<lparr> t_id := JStr ''T2'', t_name := Some ''Blend'',
                          t_prerequisiteTaskIds := [JStr ''T9''],
                          t_parameterRequests :=
                            [plainParam \<lparr> p_id := Some ''b'', p_label := Some ''Speed'' \<rparr>] \<rparr>] \<rparr>] \<rparr>"

section \<open>Properties of the humanizer\<close>

lemmas char_class_defs = isUpperAZ_def isLowerAZ_def isDigit_def isSpace_def isWordChar_def
  toLowerChar_def toUpperChar_def less_eq_char_def

lemma char_eq_code: "(c = d) = ((of_char c :: nat) = of_char d)"
  by (simp add: of_char_eq_iff)

lemma code_lt_256: "(of_char c :: nat) < 256"
  by (rule of_char_mod_256 [where ?'a = nat, THEN subst]) simp



lemma lower_space: "isSpace (toLowerChar c) = isSpace c"
  using code_lt_256 [of c]
  by (auto simp add: char_class_defs char_eq_code of_char_of simp del: of_char_eq_iff)






lemma upper_is_capital: "isWordChar c \<Longrightarrow> \<not> isUpperAZ c \<Longrightarrow> \<not> isUpperAZ (toUpperChar c) \<Longrightarrow> toUpperChar c = c"
  by (auto simp add: char_class_defs)


lemma startsSpace_collapse [simp]: "startsSpace (collapseSpaces s) = startsSpace s"
  by (cases s) (auto simp: isSpace_def)








lemma startsSpace_map_lower [simp]: "startsSpace (map toLowerChar s) = startsSpace s"
  by (cases s) (auto simp: lower_space)




























section \<open>Properties of the record builder\<close>

lemma foldl_push: "foldl (\<lambda>rows entry. rows @ [f entry]) acc xs = acc @ map f xs"
  by (induction xs arbitrary: acc) simp_all

lemma enumerate_nth: "i < length xs \<Longrightarrow> enumerate 0 xs ! i = (i, xs ! i)"
  by (simp add: nth_enumerate_eq)

lemma column_Dependencies:
  "column (makeRow tb tm stage task param automationText taskObj isLastParam) ''Dependencies''
     = Some (case taskObj of
               Some t \<Rightarrow> if isLastParam then getDependenciesText tm t else ''N/A''
             | None \<Rightarrow> ''N/A'')"
  by (simp add: makeRow_def column_def Let_def)

lemma column_Executor_Lock:
  "column (makeRow tb tm stage task param automationText taskObj isLastParam) ''Executor Lock''
     = Some (case taskObj of
               Some t \<Rightarrow> if isLastParam then getExecutorLockText tm t else ''N/A''
             | None \<Rightarrow> ''N/A'')"
  by (simp add: makeRow_def column_def Let_def)

lemma column_Automation_Details:
  "column (makeRow tb tm stage task param automationText taskObj isLastParam) ''Automation Details''
     = Some (if isLastParam then automationText else [])"
  by (simp add: makeRow_def column_def Let_def orText_def)

lemma column_Stage_Name:
  "column (makeRow tb tm stage task param automationText taskObj isLastParam) ''Stage Name'' = stage"
  by (simp add: makeRow_def column_def Let_def)

lemma column_Activity_Name:
  "column (makeRow tb tm stage task param automationText taskObj isLastParam) ''Activity Name'' = task"
  by (simp add: makeRow_def column_def Let_def)

lemma column_Instruction_Title:
  "column (makeRow tb tm stage task param automationText taskObj isLastParam) ''Instruction Title''
     = p_label param"
  by (simp add: makeRow_def column_def Let_def)


lemma column_Peer_Verification:
  "column (makeRow tb tm stage task param automationText taskObj isLastParam)
     ''IS PEER VERIFICATION PRESENT?''
     = Some (if p_verificationType param = Some ''BOTH'' then ''Enabled'' else ''Disabled'')"
  by (simp add: makeRow_def column_def Let_def)

lemma processTask_rows:
  "processTask w tb tm stage csvRows task =
     csvRows @ map (\<lambda>entry. makeRow tb tm (s_name stage) (t_name task) (snd entry)
                              (buildAutomationText w tb task) (Some task)
                              (int (fst entry) = int (length (t_parameterRequests task)) - 1))
                (enumerate 0 (t_parameterRequests task))"
  by (simp add: processTask_def Let_def foldl_push)

lemma processTask_row:
  assumes "i < length (t_parameterRequests task)"
  shows "drop (length csvRows) (processTask w tb tm stage csvRows task) ! i =
           makeRow tb tm (s_name stage) (t_name task) (t_parameterRequests task ! i)
             (buildAutomationText w tb task) (Some task)
             (i = length (t_parameterRequests task) - 1)"
proof -
  have "int i = int (length (t_parameterRequests task)) - 1
          \<longleftrightarrow> i = length (t_parameterRequests task) - 1"
    using assms by auto
  then show ?thesis using assms by (simp add: processTask_rows enumerate_nth)
qed



















text \<open>
  Claim C1, as the code has it. A task with \<open>N \<ge> 1\<close> parameters adds exactly \<open>N\<close> records to
  the list, one per parameter in declared order. Every record before the last carries the
  placeholder \<^verbatim>\<open>N/A\<close> in Dependencies and Executor Lock and the empty string in Automation
  Details. The record of the last parameter carries the task's dependencies text, executor-lock
  text and automation text, whatever they are: for a task without prerequisites, lock or
  automation these are the placeholders again.
\<close>

theorem task_level_columns_on_last_record:
  assumes "t_parameterRequests task \<noteq> []"
  shows "let params = t_parameterRequests task;
             n = length params;
             out = processTask w tb tm stage csvRows task;
             new = drop (length csvRows) out
         in take (length csvRows) out = csvRows \<and> length new = n
          \<and> (\<forall>i < n. column (new ! i) ''Instruction Title'' = p_label (params ! i))
          \<and> (\<forall>i < n - 1. column (new ! i) ''Dependencies'' = Some ''N/A''
                        \<and> column (new ! i) ''Executor Lock'' = Some ''N/A''
                        \<and> column (new ! i) ''Automation Details'' = Some [])
          \<and> column (new ! (n - 1)) ''Dependencies'' = Some (getDependenciesText tm task)
          \<and> column (new ! (n - 1)) ''Executor Lock'' = Some (getExecutorLockText tm task)
          \<and> column (new ! (n - 1)) ''Automation Details'' = Some (buildAutomationText w tb task)"
proof -
  let ?params = "t_parameterRequests task"
  let ?n = "length ?params"
  let ?out = "processTask w tb tm stage csvRows task"
  let ?new = "drop (length csvRows) ?out"
  have pos: "0 < ?n" using assms by simp
  have a: "take (length csvRows) ?out = csvRows" by (simp add: processTask_rows)
  have b: "length ?new = ?n" by (simp add: processTask_rows)
  have c: "\<forall>i < ?n. column (?new ! i) ''Instruction Title'' = p_label (?params ! i)"
    by (simp add: processTask_row column_Instruction_Title)
  have d: "\<forall>i < ?n - 1. column (?new ! i) ''Dependencies'' = Some ''N/A''
                        \<and> column (?new ! i) ''Executor Lock'' = Some ''N/A''
                        \<and> column (?new ! i) ''Automation Details'' = Some []"
    by (simp add: processTask_row column_Dependencies column_Executor_Lock
        column_Automation_Details)
  have l: "?n - 1 < ?n" using pos by simp
  have e: "column (?new ! (?n - 1)) ''Dependencies'' = Some (getDependenciesText tm task)"
    using processTask_row [OF l, of csvRows w tb tm stage] by (simp add: column_Dependencies)
  have f: "column (?new ! (?n - 1)) ''Executor Lock'' = Some (getExecutorLockText tm task)"
    using processTask_row [OF l, of csvRows w tb tm stage] by (simp add: column_Executor_Lock)
  have g: "column (?new ! (?n - 1)) ''Automation Details'' = Some (buildAutomationText w tb task)"
    using processTask_row [OF l, of csvRows w tb tm stage] by (simp add: column_Automation_Details)
  show ?thesis unfolding Let_def using a b c d e f g by blast
qed

theorem task_level_columns_witness:
  "t_parameterRequests intakeTask \<noteq> []
   \<and> length (processTask intakeWorkflow (buildTables intakeWorkflow) (buildTaskMap intakeWorkflow)
               intakeStage [] intakeTask) = 2
   \<and> column (processTask intakeWorkflow (buildTables intakeWorkflow) (buildTaskMap intakeWorkflow)
               intakeStage [] intakeTask ! 0) ''Automation Details'' = Some []
   \<and> column (processTask intakeWorkflow (buildTables intakeWorkflow) (buildTaskMap intakeWorkflow)
               intakeStage [] intakeTask ! 1) ''Automation Details''
       = Some (buildAutomationText intakeWorkflow (buildTables intakeWorkflow) intakeTask)"
proof -
  have ne: "t_parameterRequests intakeTask \<noteq> []" by (simp add: intakeTask_def)
  have n: "length (t_parameterRequests intakeTask) = 2" by (simp add: intakeTask_def)
  show ?thesis
    using ne task_level_columns_on_last_record [OF ne, of intakeWorkflow "buildTables intakeWorkflow"
        "buildTaskMap intakeWorkflow" intakeStage "[]"]
    by (simp add: Let_def n)
qed

text \<open>
  Claim C1 as the specification words it also says that exactly one of the \<open>N\<close> records has
  non-placeholder values in the three columns. A task with one parameter and no prerequisites,
  executor lock or automation yields one record, and all three columns hold the placeholder.
\<close>

theorem task_without_task_level_info_counterexample:
  "length (processWorkflow bareWorkflow []) = 1
   \<and> column (processWorkflow bareWorkflow [] ! 0) ''Dependencies'' = Some ''N/A''
   \<and> column (processWorkflow bareWorkflow [] ! 0) ''Executor Lock'' = Some ''N/A''
   \<and> column (processWorkflow bareWorkflow [] ! 0) ''Automation Details'' = Some []"
  by code_simp

text \<open>
  Claim C7 says the peer-verification column is \<^verbatim>\<open>Enabled\<close> when the tag is peer or both. In
  the code the column is \<^verbatim>\<open>Enabled\<close> for the tag \<^verbatim>\<open>BOTH\<close> only: a parameter tagged \<^verbatim>\<open>PEER\<close> gets
  \<^verbatim>\<open>Disabled\<close> in the column \<^verbatim>\<open>IS PEER VERIFICATION PRESENT?\<close>, while the self-verification
  column does test its own tag (\<open>column_Self_Verification\<close>).
\<close>

theorem peer_tag_leaves_peer_column_disabled:
  "column (makeRow tb tm stage task (param \<lparr> p_verificationType := Some ''PEER'' \<rparr>)
             automationText taskObj isLastParam) ''IS PEER VERIFICATION PRESENT?'' = Some ''Disabled''"
  by (simp add: column_Peer_Verification)

theorem peer_tag_witness:
  "column (processWorkflow peerWorkflow [] ! 0) ''IS PEER VERIFICATION PRESENT?'' = Some ''Disabled''
   \<and> column (makeRow emptyTables Map.empty (Some ''Packing'') (Some ''Clear line'') peerParam []
               None True) ''IS PEER VERIFICATION PRESENT?'' = Some ''Disabled''"
proof -
  have "column (processWorkflow peerWorkflow [] ! 0) ''IS PEER VERIFICATION PRESENT?''
          = Some ''Disabled''"
    by code_simp
  then show ?thesis
    using peer_tag_leaves_peer_column_disabled [of emptyTables Map.empty "Some ''Packing''"
        "Some ''Clear line''" "plainParam \<lparr> p_id := Some ''q2'', p_label := Some ''Line clearance'' \<rparr>"
        "[]" None True]
    by (simp add: peerParam_def)
qed




lemma processCjf_rows:
  "processCjf w tb tm csvRows =
     csvRows @ map (\<lambda>entry. makeRow tb tm (Some ''Create Job Form'') (p_label (snd entry)) (snd entry)
                              [] None (int (fst entry) = int (length (parameterRequests w)) - 1))
                (enumerate 0 (parameterRequests w))"
  by (simp add: processCjf_def Let_def foldl_push)

lemma processWorkflow_cjf_rows:
  "processWorkflow w csvRows =
     foldl (processStage w (buildTables w) (buildTaskMap w)) csvRows (stageRequests w)
     @ map (\<lambda>entry. makeRow (buildTables w) (buildTaskMap w) (Some ''Create Job Form'')
                      (p_label (snd entry)) (snd entry) [] None
                      (int (fst entry) = int (length (parameterRequests w)) - 1))
         (enumerate 0 (parameterRequests w))"
  by (simp add: processWorkflow_def Let_def processCjf_rows)

text \<open>
  Claim C10. The records of the creation form are the last records \<^verbatim>\<open>processWorkflow\<close> adds,
  one per top-level parameter in order. Each has Stage Name \<^verbatim>\<open>Create Job Form\<close>, the parameter's
  own label as Activity Name (and as Instruction Title), the placeholder \<^verbatim>\<open>N/A\<close> in Dependencies
  and Executor Lock and the empty string in Automation Details; the last one is no exception.
\<close>

theorem creation_form_records:
  "let params = parameterRequests w;
       n = length params;
       out = processWorkflow w csvRows;
       cjf = drop (length out - n) out
   in length cjf = n
    \<and> (\<forall>i < n. column (cjf ! i) ''Stage Name'' = Some ''Create Job Form''
                \<and> column (cjf ! i) ''Activity Name'' = p_label (params ! i)
                \<and> column (cjf ! i) ''Instruction Title'' = p_label (params ! i)
                \<and> column (cjf ! i) ''Dependencies'' = Some ''N/A''
                \<and> column (cjf ! i) ''Executor Lock'' = Some ''N/A''
                \<and> column (cjf ! i) ''Automation Details'' = Some [])"
proof -
  let ?params = "parameterRequests w"
  let ?n = "length ?params"
  let ?out = "processWorkflow w csvRows"
  let ?f = "\<lambda>entry. makeRow (buildTables w) (buildTaskMap w) (Some ''Create Job Form'')
                      (p_label (snd entry)) (snd entry) [] None
                      (int (fst entry) = int (length (parameterRequests w)) - 1)"
  have cjf: "drop (length ?out - ?n) ?out = map ?f (enumerate 0 ?params)"
    by (simp add: processWorkflow_cjf_rows)
  have row: "drop (length ?out - ?n) ?out ! i = ?f (i, ?params ! i)" if "i < ?n" for i
    using that by (simp add: cjf enumerate_nth)
  have len: "length (drop (length ?out - ?n) ?out) = ?n"
    by (simp only: cjf length_map length_enumerate)
  have cols: "\<forall>i < ?n. column (drop (length ?out - ?n) ?out ! i) ''Stage Name'' = Some ''Create Job Form''
                \<and> column (drop (length ?out - ?n) ?out ! i) ''Activity Name'' = p_label (?params ! i)
                \<and> column (drop (length ?out - ?n) ?out ! i) ''Instruction Title'' = p_label (?params ! i)
                \<and> column (drop (length ?out - ?n) ?out ! i) ''Dependencies'' = Some ''N/A''
                \<and> column (drop (length ?out - ?n) ?out ! i) ''Executor Lock'' = Some ''N/A''
                \<and> column (drop (length ?out - ?n) ?out ! i) ''Automation Details'' = Some []"
  proof (intro allI impI)
    fix i assume "i < ?n"
    then show "column (drop (length ?out - ?n) ?out ! i) ''Stage Name'' = Some ''Create Job Form''
                \<and> column (drop (length ?out - ?n) ?out ! i) ''Activity Name'' = p_label (?params ! i)
                \<and> column (drop (length ?out - ?n) ?out ! i) ''Instruction Title'' = p_label (?params ! i)
                \<and> column (drop (length ?out - ?n) ?out ! i) ''Dependencies'' = Some ''N/A''
                \<and> column (drop (length ?out - ?n) ?out ! i) ''Executor Lock'' = Some ''N/A''
                \<and> column (drop (length ?out - ?n) ?out ! i) ''Automation Details'' = Some []"
      by (simp only: row column_Stage_Name column_Activity_Name column_Instruction_Title
          column_Dependencies column_Executor_Lock column_Automation_Details snd_conv
          option.case if_False if_cancel simp_thms)
  qed
  show ?thesis
    unfolding Let_def using len cols by (rule conjI)
qed

theorem creation_form_records_witness:
  "length (processWorkflow formWorkflow []) = 2
   \<and> column (processWorkflow formWorkflow [] ! 1) ''Stage Name'' = Some ''Create Job Form''
   \<and> column (processWorkflow formWorkflow [] ! 1) ''Activity Name'' = Some ''Batch No''
   \<and> column (processWorkflow formWorkflow [] ! 1) ''Dependencies'' = Some ''N/A''
   \<and> column (processWorkflow formWorkflow [] ! 1) ''Executor Lock'' = Some ''N/A''
   \<and> column (processWorkflow formWorkflow [] ! 1) ''Automation Details'' = Some []"
proof -
  have len: "length (processWorkflow formWorkflow []) = 2" by code_simp
  have n: "length (parameterRequests formWorkflow) = 1"
    by (simp add: formWorkflow_def)
  have p: "p_label (parameterRequests formWorkflow ! 0) = Some ''Batch No''"
    by (simp add: formWorkflow_def plainParam_def)
  show ?thesis
    using creation_form_records [of formWorkflow "[]"]
    by (simp add: Let_def len n p)
qed

section \<open>Properties of the assembly\<close>

lemma processTask_append:
  "processTask w tb tm stage csvRows task = csvRows @ processTask w tb tm stage [] task"
  by (simp add: processTask_rows)

lemma foldl_append_acc:
  assumes step: "\<And>acc x. f acc x = acc @ f [] x"
  shows "foldl f acc xs = acc @ foldl f [] xs"
proof (induction xs arbitrary: acc)
  case Nil
  then show ?case by simp
next
  case (Cons x xs)
  have "foldl f acc (x # xs) = foldl f (f acc x) xs" by simp
  also have "\<dots> = f acc x @ foldl f [] xs" by (rule Cons.IH)
  also have "\<dots> = (acc @ f [] x) @ foldl f [] xs"
    by (subst step [of acc x]) (rule refl)
  also have "\<dots> = acc @ (f [] x @ foldl f [] xs)" by (rule append_assoc)
  also have "\<dots> = acc @ foldl f (f [] x) xs"
    by (subst Cons.IH [of "f [] x"]) (rule refl)
  also have "\<dots> = acc @ foldl f [] (x # xs)" by simp
  finally show ?case .
qed

lemma processStage_append:
  "processStage w tb tm csvRows stage = csvRows @ processStage w tb tm [] stage"
  unfolding processStage_def by (rule foldl_append_acc) (rule processTask_append)

lemma processStages_append:
  "foldl (processStage w tb tm) acc ss = acc @ foldl (processStage w tb tm) [] ss"
  by (rule foldl_append_acc) (rule processStage_append)

lemma processCjf_append:
  "processCjf w tb tm csvRows = csvRows @ processCjf w tb tm [] "
  by (simp add: processCjf_rows)

lemma processWorkflow_append:
  "processWorkflow w csvRows = csvRows @ processWorkflow w []"
proof -
  let ?tm = "buildTaskMap w" and ?tb = "buildTables w"
  let ?stages = "foldl (processStage w ?tb ?tm) [] (stageRequests w)"
  have "processWorkflow w csvRows
          = processCjf w ?tb ?tm (foldl (processStage w ?tb ?tm) csvRows (stageRequests w))"
    by (simp add: processWorkflow_def Let_def)
  also have "\<dots> = processCjf w ?tb ?tm (csvRows @ ?stages)"
    by (subst processStages_append) (rule refl)
  also have "\<dots> = (csvRows @ ?stages) @ processCjf w ?tb ?tm []"
    by (rule processCjf_append)
  also have "\<dots> = csvRows @ (?stages @ processCjf w ?tb ?tm [])"
    by (rule append_assoc)
  also have "?stages @ processCjf w ?tb ?tm [] = processCjf w ?tb ?tm ?stages"
    by (rule processCjf_append [symmetric])
  also have "processCjf w ?tb ?tm ?stages = processWorkflow w []"
    by (simp add: processWorkflow_def Let_def)
  finally show ?thesis .
qed

lemma foldl_concat_acc:
  assumes step: "\<And>acc x. f acc x = acc @ f [] x"
  shows "foldl f [] xs = concat (map (f []) xs)"
proof (induction xs)
  case Nil
  then show ?case by simp
next
  case (Cons x xs)
  have "foldl f [] (x # xs) = foldl f (f [] x) xs" by simp
  also have "\<dots> = f [] x @ foldl f [] xs" using step by (rule foldl_append_acc)
  also have "\<dots> = f [] x @ concat (map (f []) xs)" by (simp only: Cons.IH)
  also have "\<dots> = concat (map (f []) (x # xs))" by simp
  finally show ?case .
qed

lemma collectRows_concat:
  "collectRows jsonObjects = concat (map (\<lambda>w. processWorkflow w []) jsonObjects)"
  unfolding collectRows_def
  by (rule foldl_concat_acc [where f = "\<lambda>csvRows w. processWorkflow w csvRows"])
    (rule processWorkflow_append)

text \<open>
  Claim C9. \<^verbatim>\<open>processWorkflow\<close> builds its tables from the definition it is given and from
  nothing else, and it only appends to the shared list. So the list a batch produces before the
  partition is the concatenation, in batch order, of the lists each definition produces when it
  is processed alone.
\<close>

theorem batch_is_concatenation:
  "collectRows jsonObjects = concat (map (\<lambda>w. processWorkflow w []) jsonObjects)
   \<and> processWorkflow w csvRows = csvRows @ processWorkflow w []"
  by (intro conjI collectRows_concat processWorkflow_append)

theorem batch_is_concatenation_witness:
  "collectRows [formWorkflow, intakeWorkflow]
     = processWorkflow formWorkflow [] @ processWorkflow intakeWorkflow []
   \<and> processWorkflow intakeWorkflow (processWorkflow formWorkflow [])
     = processWorkflow formWorkflow [] @ processWorkflow intakeWorkflow []"
  using batch_is_concatenation [of "[formWorkflow, intakeWorkflow]" intakeWorkflow
      "processWorkflow formWorkflow []"]
  by simp

lemma partition_nth_first:
  "i < length (filter P xs) \<Longrightarrow> P ((filter P xs @ filter (\<lambda>x. \<not> P x) xs) ! i)"
proof -
  assume i: "i < length (filter P xs)"
  then have "filter P xs ! i \<in> set (filter P xs)" by (rule nth_mem)
  then show ?thesis using i by (simp add: nth_append)
qed

lemma partition_nth_rest:
  assumes "length (filter P xs) \<le> i" "i < length xs"
  shows "\<not> P ((filter P xs @ filter (\<lambda>x. \<not> P x) xs) ! i)"
proof -
  have "length (filter P xs) + length (filter (\<lambda>x. \<not> P x) xs) = length xs"
    by (rule sum_length_filter_compl)
  then have "i - length (filter P xs) < length (filter (\<lambda>x. \<not> P x) xs)"
    using assms by linarith
  then have "filter (\<lambda>x. \<not> P x) xs ! (i - length (filter P xs)) \<in> set (filter (\<lambda>x. \<not> P x) xs)"
    by (rule nth_mem)
  then show ?thesis using assms by (simp add: nth_append)
qed

text \<open>
  Claim C3. The assembled list has the records of the concatenated list, the \<open>k\<close> records whose
  Stage Name is \<^verbatim>\<open>Create Job Form\<close> in the first \<open>k\<close> places and the others after them, and
  within each of the two groups the records are in the order they had before.
\<close>

theorem assembled_list_is_stable_partition:
  "let rows = collectRows jsonObjects;
       out = sortedRows jsonObjects;
       k = length (filter isCjfRow rows)
   in length out = length rows
    \<and> (\<forall>i < k. isCjfRow (out ! i))
    \<and> (\<forall>i. k \<le> i \<and> i < length out \<longrightarrow> \<not> isCjfRow (out ! i))
    \<and> filter isCjfRow out = filter isCjfRow rows
    \<and> filter (\<lambda>r. \<not> isCjfRow r) out = filter (\<lambda>r. \<not> isCjfRow r) rows"
proof -
  let ?rows = "collectRows jsonObjects"
  have len: "length (sortedRows jsonObjects) = length ?rows"
    by (simp add: sortedRows_def moveCjfFirst_def sum_length_filter_compl)
  have first: "\<forall>i < length (filter isCjfRow ?rows). isCjfRow (sortedRows jsonObjects ! i)"
  proof (intro allI impI)
    fix i assume "i < length (filter isCjfRow ?rows)"
    then show "isCjfRow (sortedRows jsonObjects ! i)"
      unfolding sortedRows_def moveCjfFirst_def by (rule partition_nth_first)
  qed
  have rest: "\<forall>i. length (filter isCjfRow ?rows) \<le> i \<and> i < length (sortedRows jsonObjects)
                 \<longrightarrow> \<not> isCjfRow (sortedRows jsonObjects ! i)"
  proof (intro allI impI)
    fix i assume "length (filter isCjfRow ?rows) \<le> i \<and> i < length (sortedRows jsonObjects)"
    then have "length (filter isCjfRow ?rows) \<le> i" and "i < length ?rows"
      by (simp_all add: len)
    then show "\<not> isCjfRow (sortedRows jsonObjects ! i)"
      unfolding sortedRows_def moveCjfFirst_def by (rule partition_nth_rest)
  qed
  have keep1: "filter isCjfRow (sortedRows jsonObjects) = filter isCjfRow ?rows"
    by (simp add: sortedRows_def moveCjfFirst_def)
  have keep2: "filter (\<lambda>r. \<not> isCjfRow r) (sortedRows jsonObjects) = filter (\<lambda>r. \<not> isCjfRow r) ?rows"
    by (simp add: sortedRows_def moveCjfFirst_def)
  show ?thesis unfolding Let_def by (intro conjI len first rest keep1 keep2)
qed

theorem assembled_list_witness:
  "length (sortedRows [formWorkflow, intakeWorkflow]) = 4
   \<and> isCjfRow (sortedRows [formWorkflow, intakeWorkflow] ! 0)
   \<and> \<not> isCjfRow (sortedRows [formWorkflow, intakeWorkflow] ! 1)"
proof -
  have rows: "map isCjfRow (collectRows [formWorkflow, intakeWorkflow]) = [False, True, False, False]"
    by code_simp
  have len: "length (collectRows [formWorkflow, intakeWorkflow]) = 4"
    using arg_cong [OF rows, of length] by simp
  have k: "length (filter isCjfRow (collectRows [formWorkflow, intakeWorkflow])) = 1"
    using arg_cong [OF rows, of "\<lambda>bs. length (filter id bs)"] by (simp add: filter_map comp_def)
  show ?thesis
    using assembled_list_is_stable_partition [of "[formWorkflow, intakeWorkflow]"]
    by (simp add: Let_def len k)
qed

section \<open>Properties of the synthesizers\<close>

lemma unresolved_dropped: "unresolvedId tb val \<Longrightarrow> resolveFilterValue tb val = JNull"
  by (auto simp: unresolvedId_def resolveFilterValue_def orElse_def truthyS_def Let_def
      split: jsval.splits)

lemma unresolved_not_null: "unresolvedId tb val \<Longrightarrow> val \<noteq> JNull"
  by (auto simp: unresolvedId_def)

lemma resolvedValues_removeAll:
  "unresolvedId tb val \<Longrightarrow> resolvedValues tb (removeAll val vals) = resolvedValues tb vals"
  by (induction vals) (auto simp: resolvedValues_def unresolved_dropped)

lemma resolvedValues_all_unresolved:
  "list_all (unresolvedId tb) vals \<Longrightarrow> resolvedValues tb vals = []"
  by (induction vals) (auto simp: resolvedValues_def unresolved_dropped)

lemma valuesPart_removeAll:
  assumes "unresolvedId tb val"
  shows "valuesPart tb (f \<lparr> ff_values := removeAll val (ff_values f) \<rparr>) = valuesPart tb f"
proof (cases "removeAll val (ff_values f) = []")
  case True
  then have "resolvedValues tb (ff_values f) = []"
    using resolvedValues_removeAll [OF assms, of "ff_values f"] by (simp add: resolvedValues_def)
  then show ?thesis using True by (simp add: valuesPart_def Let_def)
next
  case False
  then have "ff_values f \<noteq> []" by auto
  then show ?thesis
    using False resolvedValues_removeAll [OF assms, of "ff_values f"]
    by (simp add: valuesPart_def Let_def)
qed

lemma resolveFieldName_values [simp]:
  "resolveFieldName tb (f \<lparr> ff_values := vs \<rparr>) = resolveFieldName tb f"
  by (simp add: resolveFieldName_def)

lemma filterParts_removeAll:
  assumes "unresolvedId tb val"
  shows "filterParts tb (f \<lparr> ff_values := removeAll val (ff_values f) \<rparr>) = filterParts tb f"
  using valuesPart_removeAll [OF assms, of f]
  by (simp add: filterParts_def Let_def)

lemma no_values_line:
  assumes "valuesPart tb f = []"
  shows "list_all (\<lambda>p. \<not> startsWith p ''Values: '') (filterParts tb f)"
  using assms by (simp add: filterParts_def Let_def startsWith_def)

lemma matchesHex24_strayId: "matchesHex24 strayId"
  by code_simp

lemma other_value_kept:
  assumes "JStr s \<in> set vals" and "\<not> matchesHex24 s"
  shows "JStr s \<in> set (resolvedValues tb vals)"
proof -
  have "resolveFilterValue tb (JStr s) = JStr s"
    using assms(2) by (simp add: resolveFilterValue_def)
  then have "JStr s \<in> resolveFilterValue tb ` set vals"
    using assms(1) by (metis image_eqI)
  then show ?thesis by (simp add: resolvedValues_def)
qed

lemma not_hex_Approved: "\<not> matchesHex24 ''Approved''"
  by (simp add: matchesHex24_def)

text \<open>
  Claim C4, as the code has it. Take a filter field with selector \<^verbatim>\<open>CONSTANT\<close> and a value that
  is identifier-shaped for the code, that is, 24 characters from \<^verbatim>\<open>[a-f0-9]\<close> (lower-case
  hexadecimal digits), and in neither table. The value is dropped: the resolved values, and with
  them the whole block of the filter, are what they would be if the value were not listed. When
  every value of the field is dropped this way, no part of the block starts with \<^verbatim>\<open>Values:\<close>;
  when some value remains, the \<^verbatim>\<open>Values:\<close> line lists the remaining resolved values. A text
  value that is not identifier-shaped, an upper-case hexadecimal string among them, is kept as
  it is.
\<close>

theorem unresolved_filter_value_dropped:
  assumes "ff_selector f = Some ''CONSTANT''" and "unresolvedId tb val"
  shows "resolvedValues tb (ff_values f) = resolvedValues tb (removeAll val (ff_values f))
       \<and> filterParts tb f = filterParts tb (f \<lparr> ff_values := removeAll val (ff_values f) \<rparr>)
       \<and> (list_all (unresolvedId tb) (ff_values f) \<longrightarrow>
            list_all (\<lambda>p. \<not> startsWith p ''Values: '') (filterParts tb f))
       \<and> (resolvedValues tb (ff_values f) \<noteq> [] \<longrightarrow>
            valuesPart tb f = [''Values: '' @ joinValues '', '' (resolvedValues tb (ff_values f))])
       \<and> (\<forall>s. JStr s \<in> set (ff_values f) \<and> \<not> matchesHex24 s \<longrightarrow>
            JStr s \<in> set (resolvedValues tb (ff_values f)))"
proof -
  have sel: "truthyS (ff_selector f)" "toUpperCase (interp (ff_selector f)) \<noteq> ''PARAMETER''"
    using assms(1) by (simp_all add: truthyS_def interp_def toUpperCase_def char_class_defs)
  have a: "resolvedValues tb (ff_values f) = resolvedValues tb (removeAll val (ff_values f))"
    using resolvedValues_removeAll [OF assms(2)] by simp
  have b: "filterParts tb f = filterParts tb (f \<lparr> ff_values := removeAll val (ff_values f) \<rparr>)"
    using filterParts_removeAll [OF assms(2)] by simp
  have c: "list_all (\<lambda>p. \<not> startsWith p ''Values: '') (filterParts tb f)"
    if "list_all (unresolvedId tb) (ff_values f)"
  proof -
    have "resolvedValues tb (ff_values f) = []"
      using that by (rule resolvedValues_all_unresolved)
    then show ?thesis by (intro no_values_line) (simp add: valuesPart_def Let_def)
  qed
  have d: "valuesPart tb f = [''Values: '' @ joinValues '', '' (resolvedValues tb (ff_values f))]"
    if "resolvedValues tb (ff_values f) \<noteq> []"
  proof -
    have "ff_values f \<noteq> []" using that by (auto simp: resolvedValues_def)
    then show ?thesis using that sel by (simp add: valuesPart_def Let_def)
  qed
  have e: "\<forall>s. JStr s \<in> set (ff_values f) \<and> \<not> matchesHex24 s \<longrightarrow>
            JStr s \<in> set (resolvedValues tb (ff_values f))"
    using other_value_kept by blast
  show ?thesis using a b c d e by simp
qed

theorem unresolved_filter_value_witness:
  "ff_selector strayFilter = Some ''CONSTANT''
   \<and> unresolvedId emptyTables (JStr strayId)
   \<and> list_all (unresolvedId emptyTables) (ff_values strayFilter)
   \<and> filterParts emptyTables strayFilter
       = [''Field: status'', ''Condition: equals'', ''Selector: Constant'']
   \<and> ff_selector mixedFilter = Some ''CONSTANT''
   \<and> JStr ''Approved'' \<in> set (ff_values mixedFilter)
   \<and> \<not> matchesHex24 ''Approved''
   \<and> resolvedValues emptyTables (ff_values mixedFilter) = [JStr ''Approved'']
   \<and> valuesPart emptyTables mixedFilter = [''Values: Approved'']"
proof -
  have s: "ff_selector strayFilter = Some ''CONSTANT''"
    by (simp add: strayFilter_def)
  have u: "unresolvedId emptyTables (JStr strayId)"
    using matchesHex24_strayId by (simp add: unresolvedId_def emptyTables_def)
  have v: "removeAll (JStr strayId) (ff_values strayFilter) = []"
    by (simp add: strayFilter_def)
  have a: "list_all (unresolvedId emptyTables) (ff_values strayFilter)"
    using u by (simp add: strayFilter_def)
  have p: "filterParts emptyTables (strayFilter \<lparr> ff_values := [] \<rparr>)
             = [''Field: status'', ''Condition: equals'', ''Selector: Constant'']"
    by code_simp
  have first: "filterParts emptyTables strayFilter
       = [''Field: status'', ''Condition: equals'', ''Selector: Constant'']"
    using unresolved_filter_value_dropped [OF s u] by (simp add: v p)
  have s': "ff_selector mixedFilter = Some ''CONSTANT''"
    by (simp add: mixedFilter_def strayFilter_def)
  have m: "JStr ''Approved'' \<in> set (ff_values mixedFilter)"
    by (simp add: mixedFilter_def)
  have w: "removeAll (JStr strayId) (ff_values mixedFilter) = [JStr ''Approved'']"
    by (simp add: mixedFilter_def strayId_def)
  have r: "resolvedValues emptyTables [JStr ''Approved''] = [JStr ''Approved'']"
    by (simp add: resolvedValues_def resolveFilterValue_def not_hex_Approved)
  have j: "joinValues '', '' [JStr ''Approved''] = ''Approved''"
    by (simp add: joinValues_def joinItem_def)
  have second: "resolvedValues emptyTables (ff_values mixedFilter) = [JStr ''Approved'']
      \<and> valuesPart emptyTables mixedFilter = [''Values: Approved'']"
    using unresolved_filter_value_dropped [OF s' u] by (simp add: w r j)
  show ?thesis using s u a first s' m not_hex_Approved second by simp
qed

text \<open>
  Claim C4 as the specification words it speaks of every 24-character hexadecimal string. A
  value of 24 upper-case hexadecimal digits that is in neither table is not dropped: it stands
  on the \<^verbatim>\<open>Values:\<close> line as it is.
\<close>

theorem upper_case_identifier_counterexample:
  "length upperId = 24
   \<and> optionMap (buildTables upperIdWorkflow) upperId = None
   \<and> propertyNameMap (buildTables upperIdWorkflow) upperId = None
   \<and> column (processWorkflow upperIdWorkflow [] ! 0) ''Filters''
       = Some (''Filter 1:'' @ newline @ ''  Field: status'' @ newline @ ''  Condition: equals''
               @ newline @ ''  Selector: Constant'' @ newline
               @ ''  Values: 0123456789ABCDEF01234567'')"
  by code_simp

lemma unresolved_task_lines:
  assumes "lookupTask tm taskId = None"
  shows "dependencyLine tm taskId = ''Task ID: '' @ String_js taskId @ '' (not found in workflow)''"
    and "sameExecutorLine tm taskId
           = ''Must be executed by same person as: Task ID '' @ String_js taskId"
    and "otherExecutorLine tm taskId = ''Task ID: '' @ String_js taskId"
  using assms by (simp_all add: dependencyLine_def sameExecutorLine_def otherExecutorLine_def)

lemma unresolved_property_omitted:
  assumes "v_propertyId v = Some s" and "matchesHex24 s" and "propertyNameMap tb s = None"
  shows "propertyPart tb v = []"
proof -
  have "s \<noteq> []" using assms(2) by (auto simp: matchesHex24_def)
  then show ?thesis
    using assms by (simp add: propertyPart_def Let_def truthyS_def interp_def)
qed

lemma unresolved_value_shown:
  assumes "v_value v = JStr s" and "v_selector v = Some ''CONSTANT''" and "matchesHex24 s"
    and "optionMap tb s = None" and "propertyNameMap tb s = None"
  shows "''  Value: '' @ s \<in> set (validationParts tb exceptionType typeName (idx, v))"
proof -
  have "resolvedValue tb v = JStr s"
    using assms by (simp add: resolvedValue_def orText_def orElse_def truthyS_def)
  then show ?thesis using assms(1) by (simp add: validationParts_def Let_def)
qed

text \<open>
  Claim C5, as the code has it. No synthesizer fails on a reference that does not resolve. The
  dependencies synthesizer shows the raw task identifier with the marker
  \<^verbatim>\<open>(not found in workflow)\<close>, the executor-lock synthesizer shows it after \<^verbatim>\<open>Task ID\<close>. The
  filters synthesizer drops an identifier-shaped value that is in neither table. The validations
  synthesizer omits the \<^verbatim>\<open>Property:\<close> line of an identifier-shaped property reference that the
  property-name table does not know, but it shows an identifier-shaped value that is in neither
  table as it is, on the \<^verbatim>\<open>Value:\<close> line.
\<close>

theorem unresolved_references:
  "(lookupTask tm taskId = None \<longrightarrow>
      dependencyLine tm taskId = ''Task ID: '' @ String_js taskId @ '' (not found in workflow)''
    \<and> sameExecutorLine tm taskId
        = ''Must be executed by same person as: Task ID '' @ String_js taskId
    \<and> otherExecutorLine tm taskId = ''Task ID: '' @ String_js taskId)
   \<and> (unresolvedId tb val \<longrightarrow> resolvedValues tb [val] = [])
   \<and> (v_propertyId v = Some s \<and> matchesHex24 s \<and> propertyNameMap tb s = None \<longrightarrow>
        propertyPart tb v = [])
   \<and> (v_value v = JStr s \<and> v_selector v = Some ''CONSTANT'' \<and> unresolvedId tb (JStr s) \<longrightarrow>
        ''  Value: '' @ s \<in> set (validationParts tb exceptionType typeName (idx, v)))"
proof (intro conjI impI)
  assume "lookupTask tm taskId = None"
  then show "dependencyLine tm taskId
               = ''Task ID: '' @ String_js taskId @ '' (not found in workflow)''"
    and "sameExecutorLine tm taskId
           = ''Must be executed by same person as: Task ID '' @ String_js taskId"
    and "otherExecutorLine tm taskId = ''Task ID: '' @ String_js taskId"
    by (rule unresolved_task_lines)+
next
  assume "unresolvedId tb val"
  then show "resolvedValues tb [val] = []"
    by (intro resolvedValues_all_unresolved) simp
next
  assume "v_propertyId v = Some s \<and> matchesHex24 s \<and> propertyNameMap tb s = None"
  then show "propertyPart tb v = []"
    using unresolved_property_omitted by blast
next
  assume "v_value v = JStr s \<and> v_selector v = Some ''CONSTANT'' \<and> unresolvedId tb (JStr s)"
  then show "''  Value: '' @ s \<in> set (validationParts tb exceptionType typeName (idx, v))"
    by (intro unresolved_value_shown) (simp_all add: unresolvedId_def)
qed

theorem unresolved_references_witness:
  "lookupTask (buildTaskMap intakeWorkflow) (JStr ''T9'') = None
   \<and> dependencyLine (buildTaskMap intakeWorkflow) (JStr ''T9'')
       = ''Task ID: T9 (not found in workflow)''
   \<and> unresolvedId emptyTables (JStr strayId)
   \<and> resolvedValues emptyTables [JStr strayId] = []
   \<and> v_propertyId strayItem = Some strayId
   \<and> propertyPart emptyTables strayItem = []
   \<and> v_value strayItem = JStr strayId
   \<and> v_selector strayItem = Some ''CONSTANT''
   \<and> ''  Value: '' @ strayId
        \<in> set (validationParts emptyTables ''Default'' ''Criteria Validation'' (0, strayItem))"
proof -
  have l: "lookupTask (buildTaskMap intakeWorkflow) (JStr ''T9'') = None" by code_simp
  have u: "unresolvedId emptyTables (JStr strayId)"
    using matchesHex24_strayId by (simp add: unresolvedId_def emptyTables_def)
  have i: "v_propertyId strayItem = Some strayId" "v_value strayItem = JStr strayId"
    "v_selector strayItem = Some ''CONSTANT''"
    by (simp_all add: strayItem_def)
  have m: "propertyNameMap emptyTables strayId = None" by (simp add: emptyTables_def)
  show ?thesis
    using unresolved_references [of "buildTaskMap intakeWorkflow" "JStr ''T9''" emptyTables
        "JStr strayId" strayItem strayId "''Default''" "''Criteria Validation''" 0]
      l u i m matchesHex24_strayId
    by simp
qed

text \<open>
  Claim C5 as the specification words it says that the raw identifier of an unresolved value
  does not appear in the Validations column. It does.
\<close>

theorem unresolved_validation_value_counterexample:
  "column (processWorkflow strayValueWorkflow [] ! 0) ''Validations''
     = Some (''Criteria Validation 1:'' @ newline @ ''  Exception Type: Default'' @ newline
             @ ''  Selector: Constant'' @ newline @ ''  Value: 0123456789abcdef01234567'')"
  by code_simp

section \<open>Properties of the task position index\<close>

lemma lookupTask_none_iff:
  "lookupTask tm taskId = None \<longleftrightarrow>
     tm (propertyKey taskId) = None \<and> tm (propertyKey (JStr (String_js taskId))) = None
     \<and> tm (numberKey (Number_js taskId)) = None"
  by (simp add: lookupTask_def split: option.splits)

lemma registerTask_forms:
  "registerTask stage stageOrd tm (taskIdx, task) (propertyKey (t_id task)) \<noteq> None
   \<and> registerTask stage stageOrd tm (taskIdx, task) (String_js (t_id task)) \<noteq> None
   \<and> registerTask stage stageOrd tm (taskIdx, task) (numberKey (Number_js (t_id task))) \<noteq> None"
  by (simp add: registerTask_def Let_def propertyKey_def)

text \<open>
  What the index does for numerals: printing a number and reading the text back gives the
  number, so a numeric identifier and its text form are looked up under the same keys and
  resolve alike.
\<close>

lemma digit_char:
  "k < 10 \<Longrightarrow> isDigit (char_of (48 + k)) \<and> (of_char (char_of (48 + k)) :: nat) = 48 + k"
  for k :: nat
  by (simp add: isDigit_def less_eq_char_def of_char_of)

lemma digitsValue_snoc:
  "digitsValue (ds @ [c]) = 10 * digitsValue ds + (int (of_char c) - 48)"
  by (simp add: digitsValue_def)

lemma showNat_digits:
  "showNat n \<noteq> [] \<and> list_all isDigit (showNat n) \<and> digitsValue (showNat n) = int n"
proof (induction n rule: showNat.induct)
  case (1 n)
  show ?case
  proof (cases "n < 10")
    case True
    then show ?thesis
      using digit_char [of n] by (simp add: showNat.simps [of n] digitsValue_def)
  next
    case False
    have m: "n mod 10 < 10" by simp
    have "digitsValue (showNat n) = 10 * int (n div 10) + int (n mod 10)"
      using False 1 digit_char [OF m]
      by (simp add: showNat.simps [of n] digitsValue_snoc)
    also have "\<dots> = int n" by presburger
    finally show ?thesis
      using False 1 digit_char [OF m] by (simp add: showNat.simps [of n])
  qed
qed

lemma trim_no_blank:
  assumes "list_all (\<lambda>c. \<not> isSpace c) s"
  shows "trim s = s"
proof -
  have a: "dropWhile isSpace s = s" using assms by (cases s) simp_all
  have "list_all (\<lambda>c. \<not> isSpace c) (rev s)" using assms by (simp add: list_all_iff)
  then have b: "dropWhile isSpace (rev s) = rev s" by (cases "rev s") simp_all
  show ?thesis by (simp add: trim_def a b)
qed

lemma digit_not_blank: "isDigit c \<Longrightarrow> \<not> isSpace c"
  by (auto simp: isDigit_def isSpace_def less_eq_char_def)

lemma stringToNumber_showInt: "stringToNumber (showInt n) = Fin n"
proof (cases "n < 0")
  case False
  let ?s = "showNat (nat n)"
  have d: "?s \<noteq> []" "list_all isDigit ?s" "digitsValue ?s = int (nat n)"
    using showNat_digits [of "nat n"] by simp_all
  have "list_all (\<lambda>c. \<not> isSpace c) ?s"
    using d(2) digit_not_blank by (auto simp: list_all_iff)
  then have "trim ?s = ?s" by (rule trim_no_blank)
  then show ?thesis using False d by (simp add: stringToNumber_def showInt_def Let_def)
next
  case True
  let ?s = "showNat (nat (- n))"
  have d: "?s \<noteq> []" "list_all isDigit ?s" "digitsValue ?s = int (nat (- n))"
    using showNat_digits [of "nat (- n)"] by simp_all
  have m: "\<not> isDigit CHR ''-''" "\<not> isSpace CHR ''-''"
    by (simp_all add: isDigit_def isSpace_def less_eq_char_def)
  have "list_all (\<lambda>c. \<not> isSpace c) (CHR ''-'' # ?s)"
    using d(2) m digit_not_blank by (auto simp: list_all_iff)
  then have "trim (CHR ''-'' # ?s) = CHR ''-'' # ?s" by (rule trim_no_blank)
  then show ?thesis using True d m by (simp add: stringToNumber_def showInt_def Let_def)
qed

lemma lookupTask_number_text:
  "lookupTask tm (JNum n) = lookupTask tm (JStr (showInt n))"
  by (simp add: lookupTask_def propertyKey_def stringToNumber_showInt split: option.splits)

text \<open>
  Claim C2 says that an identifier denoting no task of the definition resolves to nothing. The
  index also stores every task under the key its identifier gives as a number, and for an
  identifier that is no numeral this key is \<^verbatim>\<open>NaN\<close>. So every unknown identifier that is no
  numeral finds the task registered last under \<^verbatim>\<open>NaN\<close>: here \<^verbatim>\<open>T9\<close> resolves to the task
  \<^verbatim>\<open>T2\<close>, and the Dependencies column of that task names the task itself instead of
  \<^verbatim>\<open>Task ID: T9 (not found in workflow)\<close>.
\<close>

theorem unknown_task_id_resolves_to_last_task:
  "lookupTask (buildTaskMap strayTaskWorkflow) (JStr ''T9'')
     = Some \<lparr> taskName = Some ''Blend'', stageName = Some ''Mixing'', stageOrder = 1,
              taskOrder = 2 \<rparr>
   \<and> column (processWorkflow strayTaskWorkflow [] ! 1) ''Dependencies''
     = Some (''Tasks that need to be executed before this task:'' @ newline
             @ ''Stage 1: Mixing'' @ newline @ ''  '' @ rightArrow @ '' Task 1.2: Blend'')"
  by code_simp

end
